theory Spec2Isabelle
  imports Complex_Main "HOL-Library.AList"
begin

section \<open>JavaScript values, objects, Sets and Maps\<close>

text \<open>
  The repository is written in JavaScript. A number is \<open>NaN\<close>, an infinity, or a finite
  number, held as the exact rational it denotes: the rounding of IEEE doubles is not
  modelled. The time values of dates are integers of magnitude at most
  \<open>8.64 \<times> 10\<^sup>1\<^sup>5\<close>, on which doubles are exact.
\<close>

datatype jsnum =
    NaN
  | Fin rat
  | PInf
  | NInf

text \<open>
  A value is one of the primitives the entity records hold, or a \<open>Date\<close>. A \<open>Date\<close>
  carries its time value, an integer number of milliseconds since the epoch; \<open>None\<close> is
  the time value \<open>NaN\<close> of an invalid date. Strings hold characters with codes below
  256.
\<close>

datatype jsval =
    JUndefined
  | JNull
  | JBool bool
  | JNum jsnum
  | JStr string
  | JDate "int option"

text \<open>
  An object is the ordered list of its own enumerable properties. Reading a property that
  is absent gives \<open>undefined\<close>; writing keeps the position of an existing property and
  appends a new one.
\<close>

type_synonym obj = "(string \<times> jsval) list"

definition getp :: "obj \<Rightarrow> string \<Rightarrow> jsval" where
  "getp ob k = (case map_of ob k of None \<Rightarrow> JUndefined | Some v \<Rightarrow> v)"

definition setp :: "string \<Rightarrow> jsval \<Rightarrow> obj \<Rightarrow> obj" where
  "setp k v ob = AList.update k v ob"

definition Object_keys :: "obj \<Rightarrow> string list" where
  "Object_keys ob = map fst ob"

text \<open>\<open>Object.assign(target, source)\<close> copies every own property of the source.\<close>

definition Object_assign :: "obj \<Rightarrow> obj \<Rightarrow> obj" where
  "Object_assign target source =
     fold (\<lambda>k t. setp k (getp source k) t) (Object_keys source) target"

text \<open>Truthiness, as used by \<open>!x\<close> and \<open>x && y\<close>.\<close>

fun truthy :: "jsval \<Rightarrow> bool" where
  "truthy JUndefined = False"
| "truthy JNull = False"
| "truthy (JBool b) = b"
| "truthy (JNum n) = (n \<noteq> NaN \<and> n \<noteq> Fin 0)"
| "truthy (JStr s) = (s \<noteq> [])"
| "truthy (JDate t) = True"

text \<open>
  A \<open>Set\<close> holds each element once and iterates in insertion order: it is a list without
  repetition. \<open>add\<close> appends an element that is new, \<open>delete\<close> removes it.
\<close>

typedef 'a jsset = "{xs :: 'a list. distinct xs}"
  morphisms Set_values Abs_jsset
  by (rule exI [of _ "[]"]) simp

setup_lifting type_definition_jsset

lift_definition Set_new :: "'a jsset" is "[]"
  by simp

lift_definition Set_add :: "'a \<Rightarrow> 'a jsset \<Rightarrow> 'a jsset"
  is "\<lambda>x xs. if x \<in> set xs then xs else xs @ [x]"
  by auto

lift_definition Set_delete :: "'a \<Rightarrow> 'a jsset \<Rightarrow> 'a jsset"
  is "\<lambda>x xs. removeAll x xs"
  by (simp add: distinct_removeAll)

lift_definition Set_has :: "'a jsset \<Rightarrow> 'a \<Rightarrow> bool"
  is "\<lambda>xs x. x \<in> set xs" .

lift_definition Set_size :: "'a jsset \<Rightarrow> nat"
  is length .

text \<open>
  A \<open>Map\<close> is the ordered list of its entries: \<open>get\<close> is \<^const>\<open>map_of\<close>, \<open>set\<close> is
  \<^const>\<open>AList.update\<close> (an existing key keeps its place), \<open>delete\<close> is
  \<^const>\<open>AList.delete\<close>. A \<open>Set\<close> stored in a \<open>Map\<close> is mutated in place through
  \<^const>\<open>AList.map_entry\<close>.
\<close>

type_synonym ('k, 'v) jsmap = "('k \<times> 'v) list"

abbreviation Map_get :: "('k, 'v) jsmap \<Rightarrow> 'k \<Rightarrow> 'v option" where
  "Map_get m k \<equiv> map_of m k"

abbreviation Map_has :: "('k, 'v) jsmap \<Rightarrow> 'k \<Rightarrow> bool" where
  "Map_has m k \<equiv> map_of m k \<noteq> None"

abbreviation Map_set :: "'k \<Rightarrow> 'v \<Rightarrow> ('k, 'v) jsmap \<Rightarrow> ('k, 'v) jsmap" where
  "Map_set k v m \<equiv> AList.update k v m"

abbreviation Map_delete :: "'k \<Rightarrow> ('k, 'v) jsmap \<Rightarrow> ('k, 'v) jsmap" where
  "Map_delete k m \<equiv> AList.delete k m"

section \<open>The registration store (memoryStore.js)\<close>

text \<open>
  The store owns four maps. Identifiers are the values of the records' \<open>id\<close> property
  (strings, in the running system) and are compared by value. Every method takes the store
  and returns its result together with the store it leaves; \<open>undefined\<close> and \<open>null\<close>
  results are \<open>None\<close>. Records are held by value: a record the caller keeps and mutates
  after handing it over is outside the model.
\<close>

record store =
  users :: "(jsval, obj) jsmap"
  events :: "(jsval, obj) jsmap"
  eventRegistrations :: "(jsval, jsval jsset) jsmap"
  userRegistrations :: "(jsval, jsval jsset) jsmap"

definition empty_store :: store where
  "empty_store = \<lparr>users = [], events = [], eventRegistrations = [], userRegistrations = []\<rparr>"

definition createUser :: "store \<Rightarrow> obj \<Rightarrow> obj \<times> store" where
  "createUser s user =
     (user, s\<lparr>users := Map_set (getp user ''id'') user (users s),
              userRegistrations := Map_set (getp user ''id'') Set_new (userRegistrations s)\<rparr>)"

definition getUserById :: "store \<Rightarrow> jsval \<Rightarrow> obj option" where
  "getUserById s ident = Map_get (users s) ident"

definition updateUser :: "store \<Rightarrow> jsval \<Rightarrow> obj \<Rightarrow> obj option \<times> store" where
  "updateUser s ident updates =
     (case Map_get (users s) ident of
        Some user \<Rightarrow>
          (let user' = Object_assign user updates
           in (Some user', s\<lparr>users := Map_set ident user' (users s)\<rparr>))
      | None \<Rightarrow> (None, s))"

definition deleteUser :: "store \<Rightarrow> jsval \<Rightarrow> obj option \<times> store" where
  "deleteUser s ident =
     (case Map_get (users s) ident of
        Some user \<Rightarrow>
          (Some user,
           s\<lparr>users := Map_delete ident (users s),
             userRegistrations := Map_delete ident (userRegistrations s),
             eventRegistrations :=
               map (\<lambda>(eventId, registeredUsers). (eventId, Set_delete ident registeredUsers))
                 (eventRegistrations s)\<rparr>)
      | None \<Rightarrow> (None, s))"

definition createEvent :: "store \<Rightarrow> obj \<Rightarrow> obj \<times> store" where
  "createEvent s event =
     (event, s\<lparr>events := Map_set (getp event ''id'') event (events s),
               eventRegistrations :=
                 Map_set (getp event ''id'') Set_new (eventRegistrations s)\<rparr>)"

definition getEventById :: "store \<Rightarrow> jsval \<Rightarrow> obj option" where
  "getEventById s ident = Map_get (events s) ident"

definition updateEvent :: "store \<Rightarrow> jsval \<Rightarrow> obj \<Rightarrow> obj option \<times> store" where
  "updateEvent s ident updates =
     (case Map_get (events s) ident of
        Some event \<Rightarrow>
          (let event' = Object_assign event updates
           in (Some event', s\<lparr>events := Map_set ident event' (events s)\<rparr>))
      | None \<Rightarrow> (None, s))"

definition deleteEvent :: "store \<Rightarrow> jsval \<Rightarrow> obj option \<times> store" where
  "deleteEvent s ident =
     (case Map_get (events s) ident of
        Some event \<Rightarrow>
          (let registeredUsers =
                 (case Map_get (eventRegistrations s) ident of
                    Some r \<Rightarrow> r | None \<Rightarrow> Set_new)
           in (Some event,
               s\<lparr>events := Map_delete ident (events s),
                 userRegistrations :=
                   fold (\<lambda>userId ur. AList.map_entry userId (Set_delete ident) ur)
                     (Set_values registeredUsers) (userRegistrations s),
                 eventRegistrations := Map_delete ident (eventRegistrations s)\<rparr>))
      | None \<Rightarrow> (None, s))"

definition registerUserForEvent :: "store \<Rightarrow> jsval \<Rightarrow> jsval \<Rightarrow> bool \<times> store" where
  "registerUserForEvent s userId eventId =
     (if Map_get (users s) userId = None \<or> Map_get (events s) eventId = None
      then (False, s)
      else if (case Map_get (eventRegistrations s) eventId of
                 Some r \<Rightarrow> Set_has r userId | None \<Rightarrow> False)
      then (False, s)
      else
        (let er1 = (if \<not> Map_has (eventRegistrations s) eventId
                    then Map_set eventId Set_new (eventRegistrations s)
                    else eventRegistrations s);
             er2 = AList.map_entry eventId (Set_add userId) er1;
             ur1 = (if \<not> Map_has (userRegistrations s) userId
                    then Map_set userId Set_new (userRegistrations s)
                    else userRegistrations s);
             ur2 = AList.map_entry userId (Set_add eventId) ur1
         in (True, s\<lparr>eventRegistrations := er2, userRegistrations := ur2\<rparr>)))"

definition unregisterUserFromEvent :: "store \<Rightarrow> jsval \<Rightarrow> jsval \<Rightarrow> bool \<times> store" where
  "unregisterUserFromEvent s userId eventId =
     (True,
      s\<lparr>eventRegistrations :=
          AList.map_entry eventId (Set_delete userId) (eventRegistrations s),
        userRegistrations :=
          AList.map_entry userId (Set_delete eventId) (userRegistrations s)\<rparr>)"

definition getEventRegistrations :: "store \<Rightarrow> jsval \<Rightarrow> obj list" where
  "getEventRegistrations s eventId =
     (let userIds = (case Map_get (eventRegistrations s) eventId of
                       Some r \<Rightarrow> r | None \<Rightarrow> Set_new)
      in List.map_filter (\<lambda>userId. Map_get (users s) userId) (Set_values userIds))"

definition getUserRegistrations :: "store \<Rightarrow> jsval \<Rightarrow> obj list" where
  "getUserRegistrations s userId =
     (let eventIds = (case Map_get (userRegistrations s) userId of
                        Some r \<Rightarrow> r | None \<Rightarrow> Set_new)
      in List.map_filter (\<lambda>eventId. Map_get (events s) eventId) (Set_values eventIds))"

definition isUserRegisteredForEvent :: "store \<Rightarrow> jsval \<Rightarrow> jsval \<Rightarrow> bool" where
  "isUserRegisteredForEvent s userId eventId =
     (case Map_get (eventRegistrations s) eventId of
        Some r \<Rightarrow> Set_has r userId
      | None \<Rightarrow> False)"

definition getEventRegistrationCount :: "store \<Rightarrow> jsval \<Rightarrow> nat" where
  "getEventRegistrationCount s eventId =
     (case Map_get (eventRegistrations s) eventId of
        Some r \<Rightarrow> Set_size r
      | None \<Rightarrow> 0)"

definition clear :: "store \<Rightarrow> store" where
  "clear s = s\<lparr>users := [], events := [], eventRegistrations := [], userRegistrations := []\<rparr>"

text \<open>
  A run of the store is a sequence of its mutating operations, applied from the left.
\<close>

datatype store_op =
    CreateUser obj
  | CreateEvent obj
  | UpdateUser jsval obj
  | UpdateEvent jsval obj
  | DeleteUser jsval
  | DeleteEvent jsval
  | Register jsval jsval
  | Unregister jsval jsval
  | Clear

fun step :: "store \<Rightarrow> store_op \<Rightarrow> store" where
  "step s (CreateUser user) = snd (createUser s user)"
| "step s (CreateEvent event) = snd (createEvent s event)"
| "step s (UpdateUser ident updates) = snd (updateUser s ident updates)"
| "step s (UpdateEvent ident updates) = snd (updateEvent s ident updates)"
| "step s (DeleteUser ident) = snd (deleteUser s ident)"
| "step s (DeleteEvent ident) = snd (deleteEvent s ident)"
| "step s (Register userId eventId) = snd (registerUserForEvent s userId eventId)"
| "step s (Unregister userId eventId) = snd (unregisterUserFromEvent s userId eventId)"
| "step s Clear = clear s"

definition run :: "store_op list \<Rightarrow> store" where
  "run ops = foldl step empty_store ops"

text \<open>
  The two sides of the mirrored index: \<^const>\<open>isUserRegisteredForEvent\<close> reads the
  participant set of the event; \<open>userHasRegistration\<close> reads the registration set of
  the user in the same way.
\<close>

definition userHasRegistration :: "store \<Rightarrow> jsval \<Rightarrow> jsval \<Rightarrow> bool" where
  "userHasRegistration s userId eventId =
     (case Map_get (userRegistrations s) userId of
        Some r \<Rightarrow> Set_has r eventId
      | None \<Rightarrow> False)"

definition mirror :: "store \<Rightarrow> bool" where
  "mirror s \<longleftrightarrow>
     (\<forall>U E. isUserRegisteredForEvent s U E \<longleftrightarrow> userHasRegistration s U E)"

text \<open>
  Identifiers are generated (UUID version 4), so a record is created under an identifier
  that the store does not hold at that moment. \<open>fresh_run\<close> says this of every creation
  of a run.
\<close>

fun fresh_op :: "store \<Rightarrow> store_op \<Rightarrow> bool" where
  "fresh_op s (CreateUser user) = (Map_get (users s) (getp user ''id'') = None)"
| "fresh_op s (CreateEvent event) = (Map_get (events s) (getp event ''id'') = None)"
| "fresh_op s _ = True"

fun fresh_run :: "store \<Rightarrow> store_op list \<Rightarrow> bool" where
  "fresh_run s [] = True"
| "fresh_run s (x # xs) = (fresh_op s x \<and> fresh_run (step s x) xs)"

text \<open>
  The invariant behind the mirror: the two indexes agree, and a registered pair names a
  stored user and a stored event.
\<close>

definition store_inv :: "store \<Rightarrow> bool" where
  "store_inv s \<longleftrightarrow>
     mirror s
     \<and> (\<forall>U E. isUserRegisteredForEvent s U E
           \<longrightarrow> Map_has (users s) U \<and> Map_has (events s) E)"

section \<open>Numbers, dates and the host\<close>

subsection \<open>Numbers\<close>

text \<open>
  The relational operators: a comparison with \<open>NaN\<close> is false; \<open>a <= b\<close> is
  \<open>not (b < a)\<close> when neither is \<open>NaN\<close>.
\<close>

fun num_lt :: "jsnum \<Rightarrow> jsnum \<Rightarrow> bool" where
  "num_lt NaN b = False"
| "num_lt a NaN = False"
| "num_lt (Fin x) (Fin y) = (x < y)"
| "num_lt (Fin x) PInf = True"
| "num_lt (Fin x) NInf = False"
| "num_lt PInf b = False"
| "num_lt NInf (Fin y) = True"
| "num_lt NInf PInf = True"
| "num_lt NInf NInf = False"

definition num_le :: "jsnum \<Rightarrow> jsnum \<Rightarrow> bool" where
  "num_le a b \<longleftrightarrow> a \<noteq> NaN \<and> b \<noteq> NaN \<and> \<not> num_lt b a"

definition num_gt :: "jsnum \<Rightarrow> jsnum \<Rightarrow> bool" where
  "num_gt a b = num_lt b a"

definition num_ge :: "jsnum \<Rightarrow> jsnum \<Rightarrow> bool" where
  "num_ge a b = num_le b a"

fun num_add :: "jsnum \<Rightarrow> jsnum \<Rightarrow> jsnum" where
  "num_add NaN b = NaN"
| "num_add a NaN = NaN"
| "num_add (Fin x) (Fin y) = Fin (x + y)"
| "num_add PInf NInf = NaN"
| "num_add NInf PInf = NaN"
| "num_add PInf b = PInf"
| "num_add a PInf = PInf"
| "num_add NInf b = NInf"
| "num_add a NInf = NInf"

fun num_neg :: "jsnum \<Rightarrow> jsnum" where
  "num_neg NaN = NaN"
| "num_neg (Fin x) = Fin (- x)"
| "num_neg PInf = NInf"
| "num_neg NInf = PInf"

text \<open>\<open>ToIntegerOrInfinity\<close> on a finite number truncates towards zero.\<close>

definition trunc :: "rat \<Rightarrow> int" where
  "trunc x = (if 0 \<le> x then \<lfloor>x\<rfloor> else \<lceil>x\<rceil>)"

text \<open>A time value as a number.\<close>

definition time_num :: "int option \<Rightarrow> jsnum" where
  "time_num t = (case t of None \<Rightarrow> NaN | Some x \<Rightarrow> Fin (of_int x))"

subsection \<open>\<open>Number(string)\<close>\<close>

text \<open>
  The conversion of a string to a number, after ECMAScript's \<open>StringNumericLiteral\<close>:
  white space (among the characters with codes below 256) is trimmed at both ends; the
  empty string is 0; \<^verbatim>\<open>0x\<close>, \<^verbatim>\<open>0o\<close> and
  \<^verbatim>\<open>0b\<close> introduce an unsigned literal in that radix; otherwise an optional sign is
  followed by \<^verbatim>\<open>Infinity\<close> or by a decimal literal with an optional fraction and an
  optional exponent. Anything else is \<open>NaN\<close>. The value is the exact one.
\<close>

definition is_space :: "char \<Rightarrow> bool" where
  "is_space c \<longleftrightarrow>
     c \<in> set [CHR 0x09, CHR 0x0A, CHR 0x0B, CHR 0x0C, CHR 0x0D, CHR 0x20, CHR 0xA0]"

definition trim :: "string \<Rightarrow> string" where
  "trim s = rev (dropWhile is_space (rev (dropWhile is_space s)))"

definition is_digit :: "char \<Rightarrow> bool" where
  "is_digit c \<longleftrightarrow> c \<in> set ''0123456789''"

definition digit_val :: "char \<Rightarrow> int" where
  "digit_val c = int (of_char c) - 48"

definition digits_val :: "string \<Rightarrow> int" where
  "digits_val s = foldl (\<lambda>a c. 10 * a + digit_val c) 0 s"

definition radix_digit :: "nat \<Rightarrow> char \<Rightarrow> nat option" where
  "radix_digit b c =
     (let n = (of_char c :: nat);
          v = (if 48 \<le> n \<and> n \<le> 57 then Some (n - 48)
               else if 97 \<le> n \<and> n \<le> 102 then Some (n - 87)
               else if 65 \<le> n \<and> n \<le> 70 then Some (n - 55)
               else None)
      in case v of None \<Rightarrow> None | Some d \<Rightarrow> if d < b then Some d else None)"

definition parse_radix :: "nat \<Rightarrow> string \<Rightarrow> jsnum" where
  "parse_radix b s =
     (if s \<noteq> [] \<and> list_all (\<lambda>c. radix_digit b c \<noteq> None) s
      then Fin (of_nat (foldl (\<lambda>a c. b * a + the (radix_digit b c)) 0 s))
      else NaN)"

definition DecimalDigits :: "string \<Rightarrow> int option" where
  "DecimalDigits s = (if s \<noteq> [] \<and> list_all is_digit s then Some (digits_val s) else None)"

text \<open>The text after \<^verbatim>\<open>e\<close> or \<^verbatim>\<open>E\<close>: an optional sign and digits.\<close>

definition ExponentPart :: "string \<Rightarrow> int option" where
  "ExponentPart s =
     (case s of
        [] \<Rightarrow> None
      | c # r \<Rightarrow>
          if c = CHR ''+'' then DecimalDigits r
          else if c = CHR ''-'' then map_option uminus (DecimalDigits r)
          else DecimalDigits s)"

definition scale10 :: "rat \<Rightarrow> int \<Rightarrow> rat" where
  "scale10 x k = (if 0 \<le> k then x * 10 ^ nat k else x / 10 ^ nat (- k))"

definition StrUnsignedDecimalLiteral :: "string \<Rightarrow> jsnum" where
  "StrUnsignedDecimalLiteral s =
     (if s = ''Infinity'' then PInf
      else
        (let ip = takeWhile is_digit s;
             r1 = dropWhile is_digit s;
             dot = (case r1 of [] \<Rightarrow> False | c # r \<Rightarrow> c = CHR ''.'');
             fp = (if dot then takeWhile is_digit (tl r1) else []);
             r2 = (if dot then dropWhile is_digit (tl r1) else r1);
             mant = of_int (digits_val (ip @ fp)) / 10 ^ length fp
         in if ip = [] \<and> fp = [] then NaN
            else
              (case r2 of
                 [] \<Rightarrow> Fin mant
               | c # r3 \<Rightarrow>
                   if c = CHR ''e'' \<or> c = CHR ''E''
                   then (case ExponentPart r3 of
                           None \<Rightarrow> NaN
                         | Some k \<Rightarrow> Fin (scale10 mant k))
                   else NaN)))"

definition StrDecimalLiteral :: "string \<Rightarrow> jsnum" where
  "StrDecimalLiteral s =
     (case s of
        [] \<Rightarrow> NaN
      | c # r \<Rightarrow>
          if c = CHR ''+'' then StrUnsignedDecimalLiteral r
          else if c = CHR ''-'' then num_neg (StrUnsignedDecimalLiteral r)
          else StrUnsignedDecimalLiteral s)"

definition Number_str :: "string \<Rightarrow> jsnum" where
  "Number_str s =
     (let t = trim s
      in if t = [] then Fin 0
         else
           (case t of
              c1 # c2 # r \<Rightarrow>
                if c1 = CHR ''0'' \<and> (c2 = CHR ''x'' \<or> c2 = CHR ''X'') then parse_radix 16 r
                else if c1 = CHR ''0'' \<and> (c2 = CHR ''o'' \<or> c2 = CHR ''O'') then parse_radix 8 r
                else if c1 = CHR ''0'' \<and> (c2 = CHR ''b'' \<or> c2 = CHR ''B'') then parse_radix 2 r
                else StrDecimalLiteral t
            | _ \<Rightarrow> StrDecimalLiteral t))"

fun ToNumber :: "jsval \<Rightarrow> jsnum" where
  "ToNumber JUndefined = NaN"
| "ToNumber JNull = Fin 0"
| "ToNumber (JBool b) = Fin (if b then 1 else 0)"
| "ToNumber (JNum n) = n"
| "ToNumber (JStr s) = Number_str s"
| "ToNumber (JDate t) = time_num t"

subsection \<open>The host and its dates\<close>

text \<open>
  The host gives what ECMAScript leaves to the implementation: the offset of local time
  from UTC, in milliseconds, at a UTC time value (\<open>localTZA t True\<close>) and at a local time
  value (\<open>localTZA t False\<close>), and the parser behind \<open>new Date(string)\<close>, which gives
  \<open>None\<close> (\<open>NaN\<close>) on a string it does not accept. The current time handed to the
  functions below is a valid time value.
\<close>

record host =
  localTZA :: "int \<Rightarrow> bool \<Rightarrow> int"
  parseDate :: "string \<Rightarrow> int option"

definition msPerSecond :: int where
  "msPerSecond = 1000"

definition msPerMinute :: int where
  "msPerMinute = 60000"

definition msPerHour :: int where
  "msPerHour = 3600000"

definition msPerDay :: int where
  "msPerDay = 86400000"

definition LocalTime :: "host \<Rightarrow> int \<Rightarrow> int" where
  "LocalTime h t = t + localTZA h t True"

definition UTC :: "host \<Rightarrow> int \<Rightarrow> int" where
  "UTC h t = t - localTZA h t False"

definition Day :: "int \<Rightarrow> int" where
  "Day t = t div msPerDay"

definition HourFromTime :: "int \<Rightarrow> int" where
  "HourFromTime t = (t div msPerHour) mod 24"

definition MinFromTime :: "int \<Rightarrow> int" where
  "MinFromTime t = (t div msPerMinute) mod 60"

definition SecFromTime :: "int \<Rightarrow> int" where
  "SecFromTime t = (t div msPerSecond) mod 60"

definition msFromTime :: "int \<Rightarrow> int" where
  "msFromTime t = t mod msPerSecond"

text \<open>
  \<open>TimeClip\<close>: a time value is an integer of magnitude at most \<open>8.64 \<times> 10\<^sup>1\<^sup>5\<close>;
  anything else is \<open>NaN\<close>.
\<close>

definition TimeClip :: "jsnum \<Rightarrow> int option" where
  "TimeClip t =
     (case t of
        Fin x \<Rightarrow> if \<bar>x\<bar> > 8640000000000000 then None else Some (trunc x)
      | _ \<Rightarrow> None)"

definition MakeTime :: "jsnum \<Rightarrow> jsnum \<Rightarrow> jsnum \<Rightarrow> jsnum \<Rightarrow> int option" where
  "MakeTime hour minute sec ms =
     (case (hour, minute, sec, ms) of
        (Fin hr, Fin mi, Fin s, Fin milli) \<Rightarrow>
          Some (trunc hr * msPerHour + trunc mi * msPerMinute
                + trunc s * msPerSecond + trunc milli)
      | _ \<Rightarrow> None)"

definition MakeDate :: "int \<Rightarrow> int option \<Rightarrow> int option" where
  "MakeDate day time = (case time of None \<Rightarrow> None | Some tm \<Rightarrow> Some (day * msPerDay + tm))"

text \<open>\<open>new Date(value)\<close>: the time value of the new date.\<close>

definition new_Date :: "host \<Rightarrow> jsval \<Rightarrow> int option" where
  "new_Date h v =
     (case v of
        JDate t \<Rightarrow> t
      | JStr s \<Rightarrow> TimeClip (time_num (parseDate h s))
      | _ \<Rightarrow> TimeClip (ToNumber v))"

text \<open>
  \<open>d.setHours(hour, min, 0, 0)\<close>, \<open>d.getMinutes()\<close> and \<open>d.setMinutes(min)\<close>, as
  ECMAScript defines them on local time; the setters give the new time value.
\<close>

definition Date_setHours :: "host \<Rightarrow> int option \<Rightarrow> jsnum \<Rightarrow> jsnum \<Rightarrow> int option" where
  "Date_setHours h tv hour minute =
     (case tv of
        None \<Rightarrow> None
      | Some t \<Rightarrow>
          (case MakeDate (Day (LocalTime h t)) (MakeTime hour minute (Fin 0) (Fin 0)) of
             None \<Rightarrow> None
           | Some date \<Rightarrow> TimeClip (Fin (of_int (UTC h date)))))"

definition Date_getMinutes :: "host \<Rightarrow> int option \<Rightarrow> int option" where
  "Date_getMinutes h tv =
     (case tv of
        None \<Rightarrow> None
      | Some t \<Rightarrow> Some (MinFromTime (LocalTime h t)))"

definition Date_setMinutes :: "host \<Rightarrow> int option \<Rightarrow> jsnum \<Rightarrow> int option" where
  "Date_setMinutes h tv minute =
     (case tv of
        None \<Rightarrow> None
      | Some t \<Rightarrow>
          (let l = LocalTime h t
           in case MakeDate (Day l)
                     (MakeTime (Fin (of_int (HourFromTime l))) minute
                        (Fin (of_int (SecFromTime l))) (Fin (of_int (msFromTime l)))) of
                None \<Rightarrow> None
              | Some date \<Rightarrow> TimeClip (Fin (of_int (UTC h date)))))"

text \<open>The decimal text of a natural number, as string concatenation produces it.\<close>

fun show_nat :: "nat \<Rightarrow> string" where
  "show_nat n =
     (if n < 10 then [char_of (48 + n)]
      else show_nat (n div 10) @ [char_of (48 + n mod 10)])"

declare show_nat.simps [simp del]

definition minute_text :: "int option \<Rightarrow> string" where
  "minute_text x = (case x of None \<Rightarrow> ''NaN'' | Some n \<Rightarrow> show_nat (nat n))"

text \<open>
  \<open>ToNumber(x + v)\<close> for \<open>x\<close> the result of \<open>getMinutes()\<close>: \<open>+\<close> concatenates texts
  when \<open>v\<close> is a string or a \<open>Date\<close> (the text of a date after a number is never a
  number), and adds numbers otherwise.
\<close>

definition plus_number :: "int option \<Rightarrow> jsval \<Rightarrow> jsnum" where
  "plus_number x v =
     (case v of
        JStr s \<Rightarrow> Number_str (minute_text x @ s)
      | JDate t \<Rightarrow> NaN
      | _ \<Rightarrow> num_add (time_num x) (ToNumber v))"

section \<open>The Event model (Event.js)\<close>

definition dflt :: "jsval \<Rightarrow> jsval \<Rightarrow> jsval" where
  \<comment> \<open>A default parameter value applies when the argument is \<open>undefined\<close>.\<close>
  "dflt v d = (if v = JUndefined then d else v)"

text \<open>
  The constructor, given the generated identifier and the time of construction.
\<close>

definition Event_new :: "host \<Rightarrow> string \<Rightarrow> int \<Rightarrow> obj \<Rightarrow> obj" where
  "Event_new h uuid now p =
     [(''id'', JStr uuid),
      (''title'', getp p ''title''),
      (''description'', getp p ''description''),
      (''date'', JDate (new_Date h (getp p ''date''))),
      (''time'', getp p ''time''),
      (''duration'', dflt (getp p ''duration'') (JNum (Fin 60))),
      (''location'', getp p ''location''),
      (''maxParticipants'', dflt (getp p ''maxParticipants'') JNull),
      (''organizerId'', getp p ''organizerId''),
      (''category'', dflt (getp p ''category'') (JStr ''General'')),
      (''isPublic'', dflt (getp p ''isPublic'') (JBool True)),
      (''createdAt'', JDate (Some now)),
      (''updatedAt'', JDate (Some now)),
      (''isActive'', JBool True),
      (''status'', JStr ''upcoming'')]"

datatype error = TypeError

text \<open>\<open>s.split(c)\<close> for a one-character separator.\<close>

fun splitOn :: "char \<Rightarrow> string \<Rightarrow> string list" where
  "splitOn c [] = [[]]"
| "splitOn c (x # xs) =
     (if x = c then [] # splitOn c xs
      else (case splitOn c xs of
              [] \<Rightarrow> [[x]]
            | p # ps \<Rightarrow> (x # p) # ps))"

text \<open>
  \<open>getDateTime\<close>: calling \<open>split\<close> on a \<open>time\<close> that is not a string throws a
  \<open>TypeError\<close>. The destructuring takes the first two parts, \<open>undefined\<close> (\<open>NaN\<close> as a
  number) where there is none.
\<close>

definition getDateTime :: "host \<Rightarrow> obj \<Rightarrow> error + int option" where
  "getDateTime h e =
     (case getp e ''time'' of
        JStr t \<Rightarrow>
          (let parts = map Number_str (splitOn (CHR '':'') t);
               hours = (case parts of [] \<Rightarrow> NaN | x # _ \<Rightarrow> x);
               minutes = (case parts of _ # y # _ \<Rightarrow> y | _ \<Rightarrow> NaN);
               eventDateTime = new_Date h (getp e ''date'')
           in Inr (Date_setHours h eventDateTime hours minutes))
      | _ \<Rightarrow> Inl TypeError)"

definition hasStarted :: "host \<Rightarrow> int \<Rightarrow> obj \<Rightarrow> error + bool" where
  "hasStarted h now e =
     (case getDateTime h e of
        Inl err \<Rightarrow> Inl err
      | Inr startTime \<Rightarrow> Inr (num_ge (time_num (Some now)) (time_num startTime)))"

definition hasEnded :: "host \<Rightarrow> int \<Rightarrow> obj \<Rightarrow> error + bool" where
  "hasEnded h now e =
     (case getDateTime h e of
        Inl err \<Rightarrow> Inl err
      | Inr startTime \<Rightarrow>
          (let endTime = Date_setMinutes h startTime
                           (plus_number (Date_getMinutes h startTime) (getp e ''duration''))
           in Inr (num_gt (time_num (Some now)) (time_num endTime))))"


text \<open>
  \<open>isFull(currentParticipants = 0)\<close>, for a count that is given. The comparison
  converts \<open>maxParticipants\<close> to a number.
\<close>

definition isFull :: "obj \<Rightarrow> int \<Rightarrow> bool" where
  "isFull e currentParticipants \<longleftrightarrow>
     getp e ''maxParticipants'' \<noteq> JNull
     \<and> num_ge (Fin (of_int currentParticipants)) (ToNumber (getp e ''maxParticipants''))"

definition Event_allowedUpdates :: "string list" where
  "Event_allowedUpdates =
     [''title'', ''description'', ''date'', ''time'', ''duration'',
      ''location'', ''maxParticipants'', ''category'', ''isPublic'', ''status'']"

definition Event_update :: "host \<Rightarrow> int \<Rightarrow> obj \<Rightarrow> obj \<Rightarrow> obj" where
  "Event_update h now e updates =
     setp ''updatedAt'' (JDate (Some now))
       (fold (\<lambda>key this.
                if key \<in> set Event_allowedUpdates
                then (if key = ''date''
                      then setp key (JDate (new_Date h (getp updates key))) this
                      else setp key (getp updates key) this)
                else this)
          (Object_keys updates) e)"

definition is_string :: "jsval \<Rightarrow> bool" where
  "is_string v = (case v of JStr s \<Rightarrow> True | _ \<Rightarrow> False)"

definition is_number :: "jsval \<Rightarrow> bool" where
  "is_number v = (case v of JNum n \<Rightarrow> True | _ \<Rightarrow> False)"

text \<open>The pattern \<^verbatim>\<open>/^([0-1]?[0-9]|2[0-3]):[0-5][0-9]$/\<close>.\<close>

definition time_format :: "string \<Rightarrow> bool" where
  "time_format s =
     (case s of
        [h2, c, m1, m2] \<Rightarrow>
          is_digit h2 \<and> c = CHR '':'' \<and> m1 \<in> set ''012345'' \<and> is_digit m2
      | [h1, h2, c, m1, m2] \<Rightarrow>
          ((h1 \<in> set ''01'' \<and> is_digit h2) \<or> (h1 = CHR ''2'' \<and> h2 \<in> set ''0123''))
          \<and> c = CHR '':'' \<and> m1 \<in> set ''012345'' \<and> is_digit m2
      | _ \<Rightarrow> False)"

definition date_errors :: "host \<Rightarrow> int \<Rightarrow> jsval \<Rightarrow> string list" where
  "date_errors h now d =
     (if \<not> truthy d then [''Date is required'']
      else
        (let eventDate = new_Date h d
         in if eventDate = None then [''Date must be a valid date'']
            else if num_lt (time_num eventDate)
                      (time_num (Date_setHours h (Some now) (Fin 0) (Fin 0)))
            then [''Event date cannot be in the past'']
            else []))"

definition Event_validate :: "host \<Rightarrow> int \<Rightarrow> obj \<Rightarrow> bool \<times> string list" where
  "Event_validate h now eventData =
     (let errors =
            (if \<not> truthy (getp eventData ''title'') \<or> \<not> is_string (getp eventData ''title'')
             then [''Title is required and must be a string''] else [])
          @ (if \<not> truthy (getp eventData ''description'')
                \<or> \<not> is_string (getp eventData ''description'')
             then [''Description is required and must be a string''] else [])
          @ date_errors h now (getp eventData ''date'')
          @ (if \<not> truthy (getp eventData ''time'') \<or> \<not> is_string (getp eventData ''time'')
             then [''Time is required and must be a string'']
             else if \<not> (case getp eventData ''time'' of JStr t \<Rightarrow> time_format t | _ \<Rightarrow> False)
             then [''Time must be in HH:MM format''] else [])
          @ (if truthy (getp eventData ''duration'')
                \<and> (\<not> is_number (getp eventData ''duration'')
                    \<or> num_le (ToNumber (getp eventData ''duration'')) (Fin 0))
             then [''Duration must be a positive number (in minutes)''] else [])
          @ (if \<not> truthy (getp eventData ''location'')
                \<or> \<not> is_string (getp eventData ''location'')
             then [''Location is required and must be a string''] else [])
          @ (if truthy (getp eventData ''maxParticipants'')
                \<and> (\<not> is_number (getp eventData ''maxParticipants'')
                    \<or> num_le (ToNumber (getp eventData ''maxParticipants'')) (Fin 0))
             then [''Max participants must be a positive number''] else [])
          @ (if \<not> truthy (getp eventData ''organizerId'')
                \<or> \<not> is_string (getp eventData ''organizerId'')
             then [''Organizer ID is required''] else [])
      in (errors = [], errors))"

section \<open>The User model (User.js)\<close>

definition User_new :: "string \<Rightarrow> int \<Rightarrow> obj \<Rightarrow> obj" where
  "User_new uuid now p =
     [(''id'', JStr uuid),
      (''email'', getp p ''email''),
      (''password'', getp p ''password''),
      (''firstName'', getp p ''firstName''),
      (''lastName'', getp p ''lastName''),
      (''role'', dflt (getp p ''role'') (JStr ''attendee'')),
      (''createdAt'', JDate (Some now)),
      (''updatedAt'', JDate (Some now)),
      (''isActive'', JBool True)]"

definition User_allowedUpdates :: "string list" where
  "User_allowedUpdates = [''firstName'', ''lastName'', ''email'', ''role'', ''isActive'']"

definition User_update :: "int \<Rightarrow> obj \<Rightarrow> obj \<Rightarrow> obj" where
  "User_update now u updates =
     setp ''updatedAt'' (JDate (Some now))
       (fold (\<lambda>key this.
                if key \<in> set User_allowedUpdates
                then setp key (getp updates key) this
                else this)
          (Object_keys updates) u)"

section \<open>Example data\<close>

text \<open>A store holding one user and one event, and no registration.\<close>

definition ex_user :: obj where
  "ex_user = [(''id'', JStr ''u1''), (''email'', JStr ''ann@example.org'')]"

definition ex_event :: obj where
  "ex_event = [(''id'', JStr ''e1''), (''title'', JStr ''Talk'')]"

definition ex_store :: store where
  "ex_store = run [CreateUser ex_user, CreateEvent ex_event]"

text \<open>A run that creates them and registers the user for the event.\<close>

definition ex_ops :: "store_op list" where
  "ex_ops = [CreateUser ex_user, CreateEvent ex_event, Register (JStr ''u1'') (JStr ''e1'')]"

text \<open>A second user record under the identifier of the first.\<close>

definition ex_user_dup :: obj where
  "ex_user_dup = [(''id'', JStr ''u1''), (''email'', JStr ''bob@example.org'')]"

text \<open>
  A host one hour ahead of UTC whose parser knows two dates, an event input, the event
  constructed from it, and a set of updates that names fields outside the allow-list.
\<close>

definition ex_host :: host where
  "ex_host =
     \<lparr>localTZA = (\<lambda>t isUTC. 3600000),
      parseDate = (\<lambda>s. if s = ''2030-01-01'' then Some 1893456000000
                        else if s = ''2020-01-01'' then Some 1577836800000 else None)\<rparr>"

definition ex_event_data :: obj where
  "ex_event_data =
     [(''title'', JStr ''Talk''), (''description'', JStr ''A talk''),
      (''date'', JStr ''2030-01-01''), (''time'', JStr ''14:00''), (''duration'', JNum (Fin 90)),
      (''location'', JStr ''Room 1''), (''maxParticipants'', JNum (Fin 2)),
      (''organizerId'', JStr ''u1'')]"

definition ex_full_event :: obj where
  "ex_full_event = Event_new ex_host ''e1'' 1700000000000 ex_event_data"

definition ex_updates :: obj where
  "ex_updates = [(''title'', JStr ''Workshop''), (''id'', JStr ''e9''), (''organizerId'', JStr ''u9''),
                 (''date'', JStr ''2030-01-01''), (''colour'', JStr ''red'')]"

text \<open>An event input dated in the past, with no participant limit.\<close>

definition ex_past_event_data :: obj where
  "ex_past_event_data =
     [(''title'', JStr ''Talk''), (''description'', JStr ''A talk''),
      (''date'', JStr ''2020-01-01''), (''time'', JStr ''23:30''),
      (''location'', JStr ''Room 1''), (''organizerId'', JStr ''u1'')]"

definition ex_user_data :: obj where
  "ex_user_data =
     [(''email'', JStr ''ann@example.org''), (''password'', JStr ''$2a$hash''),
      (''firstName'', JStr ''Ann''), (''lastName'', JStr ''Lee'')]"

definition ex_user_updates :: obj where
  "ex_user_updates =
     [(''firstName'', JStr ''Anna''), (''password'', JStr ''plain''), (''id'', JStr ''u9'')]"

text \<open>A store holding the event of capacity two and three users.\<close>

definition ex_cap_store :: store where
  "ex_cap_store =
     run [CreateEvent ex_full_event, CreateUser [(''id'', JStr ''u1'')],
          CreateUser [(''id'', JStr ''u2'')], CreateUser [(''id'', JStr ''u3'')]]"









text \<open>
  A host five hours behind UTC whose parser reads the date-only form as midnight UTC, and
  an event input dated 2030-01-01.
\<close>

definition ex_host_west :: host where
  "ex_host_west =
     \<lparr>localTZA = (\<lambda>t isUTC. - 18000000),
      parseDate = (\<lambda>s. if s = ''2030-01-01'' then Some 1893456000000 else None)\<rparr>"

definition ex_today_event_data :: obj where
  "ex_today_event_data =
     [(''title'', JStr ''Talk''), (''description'', JStr ''A talk''),
      (''date'', JStr ''2030-01-01''), (''time'', JStr ''23:00''),
      (''location'', JStr ''Room 1''), (''organizerId'', JStr ''u1'')]"

section \<open>Numbers and time values: basic facts\<close>

lemma trunc_of_int [simp]: "trunc (of_int z) = z"
  by (simp add: trunc_def)

lemma trunc_numeral [simp]:
  "trunc (numeral k) = numeral k" "trunc (- numeral k) = - numeral k" "trunc 0 = 0" "trunc 1 = 1"
  by (simp_all add: trunc_def)

lemma TimeClip_int:
  "TimeClip (Fin (of_int t)) = (if \<bar>t\<bar> > 8640000000000000 then None else Some t)"
proof -
  have "\<bar>(of_int t :: rat)\<bar> > 8640000000000000 \<longleftrightarrow> \<bar>t\<bar> > 8640000000000000"
    by (metis of_int_abs of_int_less_iff of_int_numeral)
  then show ?thesis
    by (simp add: TimeClip_def)
qed

lemma TimeClip_numeral:
  "TimeClip (Fin (numeral k)) = (if 8640000000000000 < (numeral k :: int) then None else Some (numeral k))"
  "TimeClip (Fin (- numeral k)) = (if 8640000000000000 < (numeral k :: int) then None else Some (- numeral k))"
  "TimeClip (Fin 0) = Some 0"
  using TimeClip_int [of "numeral k"] TimeClip_int [of "- numeral k"] TimeClip_int [of 0]
  by simp_all

lemma TimeClip_time_num:
  "TimeClip (time_num tv)
     = (case tv of None \<Rightarrow> None
        | Some t \<Rightarrow> if \<bar>t\<bar> > 8640000000000000 then None else Some t)"
  by (cases tv) (simp_all add: time_num_def TimeClip_int, simp add: TimeClip_def)

lemma num_lt_time [simp]:
  "num_lt (time_num (Some a)) (time_num (Some b)) \<longleftrightarrow> a < b"
  "num_lt (time_num None) x = False"
  "num_lt x (time_num None) = False"
  by (cases x; simp add: time_num_def)+

lemma num_le_time [simp]:
  "num_le (time_num (Some a)) (time_num (Some b)) \<longleftrightarrow> a \<le> b"
  "num_le (time_num None) x = False"
  "num_le x (time_num None) = False"
  by (auto simp: num_le_def time_num_def)

lemma num_ge_time [simp]:
  "num_ge (time_num (Some a)) (time_num (Some b)) \<longleftrightarrow> b \<le> a"
  "num_ge (time_num None) x = False"
  "num_ge x (time_num None) = False"
  by (simp_all add: num_ge_def)

section \<open>Sets and Maps: basic facts\<close>

lemma Set_has_new [simp]: "\<not> Set_has Set_new x"
  by transfer simp

lemma Set_has_add [simp]: "Set_has (Set_add x s) y \<longleftrightarrow> y = x \<or> Set_has s y"
  by transfer auto

lemma Set_has_delete [simp]: "Set_has (Set_delete x s) y \<longleftrightarrow> y \<noteq> x \<and> Set_has s y"
  by transfer auto

lemma Set_size_new [simp]: "Set_size Set_new = 0"
  by transfer simp

lemma Set_size_add:
  "Set_size (Set_add x s) = (if Set_has s x then Set_size s else Suc (Set_size s))"
  by transfer simp

lemma Set_size_delete: "Set_has s x \<Longrightarrow> Suc (Set_size (Set_delete x s)) = Set_size s"
  by transfer
    (auto simp: distinct_remove1_removeAll [symmetric] length_remove1
          dest: length_pos_if_in_set)

lemma Set_delete_absent: "\<not> Set_has s x \<Longrightarrow> Set_delete x s = s"
  by transfer simp

lemma Set_delete_idem: "Set_delete x (Set_delete x s) = Set_delete x s"
  by transfer simp

lemma Set_values_new [simp]: "Set_values Set_new = []"
  by transfer simp

lemma Set_values_add:
  "Set_values (Set_add x s)
     = (if x \<in> set (Set_values s) then Set_values s else Set_values s @ [x])"
  by transfer simp

lemma Set_values_delete: "Set_values (Set_delete x s) = removeAll x (Set_values s)"
  by transfer simp

lemma Set_has_values: "Set_has s x \<longleftrightarrow> x \<in> set (Set_values s)"
  by transfer simp

lemma Set_size_values: "Set_size s = length (Set_values s)"
  by transfer simp

lemma map_entry_triv:
  "(\<And>v. Map_get m k = Some v \<Longrightarrow> f v = v) \<Longrightarrow> AList.map_entry k f m = m"
  by (induction m) auto

lemma map_entry_idem:
  "(\<And>v. f (f v) = f v) \<Longrightarrow>
     AList.map_entry k f (AList.map_entry k f m) = AList.map_entry k f m"
  by (induction m) auto

lemmas store_defs = registerUserForEvent_def unregisterUserFromEvent_def
  isUserRegisteredForEvent_def userHasRegistration_def getEventRegistrationCount_def
  getUserById_def getEventById_def

lemma ex_store_eq:
  "ex_store = \<lparr>users = [(JStr ''u1'', ex_user)], events = [(JStr ''e1'', ex_event)],
               eventRegistrations = [(JStr ''e1'', Set_new)],
               userRegistrations = [(JStr ''u1'', Set_new)]\<rparr>"
  by (simp add: ex_store_def run_def createUser_def createEvent_def empty_store_def
        ex_user_def ex_event_def getp_def)

lemma set_map_filter: "set (List.map_filter f xs) = {y. \<exists>x \<in> set xs. f x = Some y}"
  by (induction xs) (auto split: option.splits)

lemma ex_run_eq:
  "run ex_ops
     = \<lparr>users = [(JStr ''u1'', ex_user)], events = [(JStr ''e1'', ex_event)],
        eventRegistrations = [(JStr ''e1'', Set_add (JStr ''u1'') Set_new)],
        userRegistrations = [(JStr ''u1'', Set_add (JStr ''e1'') Set_new)]\<rparr>"
  by (simp add: ex_ops_def run_def createUser_def createEvent_def registerUserForEvent_def
        empty_store_def ex_user_def ex_event_def getp_def)

section \<open>What each store operation does to the two indexes\<close>

lemma fold_map_entry_get:
  assumes idem: "\<And>v. f (f v) = f v"
  shows "Map_get (fold (\<lambda>u ur. AList.map_entry u f ur) us ur) k
           = (if k \<in> set us then map_option f (Map_get ur k) else Map_get ur k)"
proof (induction us arbitrary: ur)
  case Nil
  show ?case by simp
next
  case (Cons u us)
  show ?case
    by (auto simp: Cons.IH AList.map_of_map_entry idem split: option.splits)
qed

lemma register_isReg:
  "isUserRegisteredForEvent (snd (registerUserForEvent s U E)) U' E'
     \<longleftrightarrow> (fst (registerUserForEvent s U E) \<and> U' = U \<and> E' = E) \<or> isUserRegisteredForEvent s U' E'"
  by (auto simp: store_defs AList.map_of_map_entry AList.update_conv'
           split: option.splits if_splits)

lemma register_userHas:
  "userHasRegistration (snd (registerUserForEvent s U E)) U' E'
     \<longleftrightarrow> (fst (registerUserForEvent s U E) \<and> U' = U \<and> E' = E) \<or> userHasRegistration s U' E'"
  by (auto simp: store_defs AList.map_of_map_entry AList.update_conv'
           split: option.splits if_splits)

lemma register_records:
  "users (snd (registerUserForEvent s U E)) = users s"
  "events (snd (registerUserForEvent s U E)) = events s"
  by (auto simp: store_defs)

lemma register_True:
  "fst (registerUserForEvent s U E) \<Longrightarrow> Map_has (users s) U \<and> Map_has (events s) E"
  by (auto simp: store_defs split: if_splits)

lemma unregister_isReg:
  "isUserRegisteredForEvent (snd (unregisterUserFromEvent s U E)) U' E'
     \<longleftrightarrow> \<not> (U' = U \<and> E' = E) \<and> isUserRegisteredForEvent s U' E'"
  by (auto simp: store_defs AList.map_of_map_entry split: option.splits)

lemma unregister_userHas:
  "userHasRegistration (snd (unregisterUserFromEvent s U E)) U' E'
     \<longleftrightarrow> \<not> (U' = U \<and> E' = E) \<and> userHasRegistration s U' E'"
  by (auto simp: store_defs AList.map_of_map_entry split: option.splits)

lemma unregister_records:
  "users (snd (unregisterUserFromEvent s U E)) = users s"
  "events (snd (unregisterUserFromEvent s U E)) = events s"
  by (auto simp: store_defs)

lemma createUser_isReg:
  "isUserRegisteredForEvent (snd (createUser s user)) U' E' \<longleftrightarrow> isUserRegisteredForEvent s U' E'"
  by (simp add: createUser_def isUserRegisteredForEvent_def)

lemma createUser_userHas:
  "userHasRegistration (snd (createUser s user)) U' E'
     \<longleftrightarrow> U' \<noteq> getp user ''id'' \<and> userHasRegistration s U' E'"
  by (auto simp: createUser_def userHasRegistration_def AList.update_conv')

lemma createUser_records:
  "Map_get (users (snd (createUser s user))) k
     = (if k = getp user ''id'' then Some user else Map_get (users s) k)"
  "events (snd (createUser s user)) = events s"
  by (auto simp: createUser_def AList.update_conv')

lemma createEvent_isReg:
  "isUserRegisteredForEvent (snd (createEvent s event)) U' E'
     \<longleftrightarrow> E' \<noteq> getp event ''id'' \<and> isUserRegisteredForEvent s U' E'"
  by (auto simp: createEvent_def isUserRegisteredForEvent_def AList.update_conv')

lemma createEvent_userHas:
  "userHasRegistration (snd (createEvent s event)) U' E' \<longleftrightarrow> userHasRegistration s U' E'"
  by (simp add: createEvent_def userHasRegistration_def)

lemma createEvent_records:
  "Map_get (events (snd (createEvent s event))) k
     = (if k = getp event ''id'' then Some event else Map_get (events s) k)"
  "users (snd (createEvent s event)) = users s"
  by (auto simp: createEvent_def AList.update_conv')

lemma updateUser_frame:
  "eventRegistrations (snd (updateUser s i upd)) = eventRegistrations s"
  "userRegistrations (snd (updateUser s i upd)) = userRegistrations s"
  "events (snd (updateUser s i upd)) = events s"
  "(\<exists>y. Map_get (users (snd (updateUser s i upd))) k = Some y)
     \<longleftrightarrow> (\<exists>y. Map_get (users s) k = Some y)"
  by (auto simp: updateUser_def Let_def AList.update_conv' split: option.splits)

lemma updateEvent_frame:
  "eventRegistrations (snd (updateEvent s i upd)) = eventRegistrations s"
  "userRegistrations (snd (updateEvent s i upd)) = userRegistrations s"
  "users (snd (updateEvent s i upd)) = users s"
  "(\<exists>y. Map_get (events (snd (updateEvent s i upd))) k = Some y)
     \<longleftrightarrow> (\<exists>y. Map_get (events s) k = Some y)"
  by (auto simp: updateEvent_def Let_def AList.update_conv' split: option.splits)

lemma deleteUser_isReg:
  "isUserRegisteredForEvent (snd (deleteUser s U)) U' E'
     \<longleftrightarrow> \<not> (U' = U \<and> Map_has (users s) U) \<and> isUserRegisteredForEvent s U' E'"
  by (auto simp: deleteUser_def isUserRegisteredForEvent_def map_of_map
           split: option.splits)

lemma deleteUser_userHas:
  "userHasRegistration (snd (deleteUser s U)) U' E'
     \<longleftrightarrow> \<not> (U' = U \<and> Map_has (users s) U) \<and> userHasRegistration s U' E'"
  by (auto simp: deleteUser_def userHasRegistration_def AList.delete_conv'
           split: option.splits)

lemma deleteUser_records:
  "Map_get (users (snd (deleteUser s U))) k = (if k = U then None else Map_get (users s) k)"
  "events (snd (deleteUser s U)) = events s"
  by (auto simp: deleteUser_def AList.delete_conv' split: option.splits)

lemma deleteEvent_isReg:
  "isUserRegisteredForEvent (snd (deleteEvent s E)) U' E'
     \<longleftrightarrow> \<not> (E' = E \<and> Map_has (events s) E) \<and> isUserRegisteredForEvent s U' E'"
  by (auto simp: deleteEvent_def isUserRegisteredForEvent_def AList.delete_conv' Let_def
           split: option.splits)

lemma deleteEvent_userHas:
  "userHasRegistration (snd (deleteEvent s E)) U' E'
     \<longleftrightarrow> \<not> (E' = E \<and> Map_has (events s) E \<and> isUserRegisteredForEvent s U' E)
         \<and> userHasRegistration s U' E'"
  by (auto simp: deleteEvent_def userHasRegistration_def isUserRegisteredForEvent_def
                 fold_map_entry_get Set_delete_idem Set_has_values [symmetric] Let_def
           split: option.splits)

lemma deleteEvent_records:
  "Map_get (events (snd (deleteEvent s E))) k = (if k = E then None else Map_get (events s) k)"
  "users (snd (deleteEvent s E)) = users s"
  by (auto simp: deleteEvent_def AList.delete_conv' Let_def split: option.splits)


lemma getUserRegistrations_mem:
  "x \<in> set (getUserRegistrations s U)
     \<longleftrightarrow> (\<exists>E'. userHasRegistration s U E' \<and> getEventById s E' = Some x)"
  by (auto simp: getUserRegistrations_def userHasRegistration_def getEventById_def
        set_map_filter Set_has_values Let_def split: option.splits)

section \<open>Registration and unregistration\<close>

text \<open>
  Claim C2 (registration contract). \<open>registerUserForEvent(U, E)\<close> returns false and
  leaves the store as it is when \<open>U\<close> is not a stored user, or \<open>E\<close> is not a stored
  event, or the pair is already registered. Otherwise it returns true, the pair \<open>(U, E)\<close>
  is added to the participant set of \<open>E\<close> and to the registration set of \<open>U\<close> and no
  other pair changes, the records are untouched, a second call returns false and changes
  nothing, and the registration count of \<open>E\<close> is one greater than before.
\<close>

theorem registerUserForEvent_contract:
  "(getUserById s U = None \<or> getEventById s E = None \<or> isUserRegisteredForEvent s U E
      \<longrightarrow> registerUserForEvent s U E = (False, s))
   \<and> (getUserById s U \<noteq> None \<and> getEventById s E \<noteq> None \<and> \<not> isUserRegisteredForEvent s U E
      \<longrightarrow> fst (registerUserForEvent s U E) = True
        \<and> (\<forall>U' E'. isUserRegisteredForEvent (snd (registerUserForEvent s U E)) U' E'
              \<longleftrightarrow> (U' = U \<and> E' = E) \<or> isUserRegisteredForEvent s U' E')
        \<and> (\<forall>U' E'. userHasRegistration (snd (registerUserForEvent s U E)) U' E'
              \<longleftrightarrow> (U' = U \<and> E' = E) \<or> userHasRegistration s U' E')
        \<and> users (snd (registerUserForEvent s U E)) = users s
        \<and> events (snd (registerUserForEvent s U E)) = events s
        \<and> registerUserForEvent (snd (registerUserForEvent s U E)) U E
            = (False, snd (registerUserForEvent s U E))
        \<and> getEventRegistrationCount (snd (registerUserForEvent s U E)) E
            = getEventRegistrationCount s E + 1)"
  by (auto simp: store_defs AList.map_of_map_entry AList.update_conv' Set_size_add
           split: option.splits if_splits)

theorem registerUserForEvent_contract_witness:
  "getUserById ex_store (JStr ''u1'') \<noteq> None
   \<and> getEventById ex_store (JStr ''e1'') \<noteq> None
   \<and> \<not> isUserRegisteredForEvent ex_store (JStr ''u1'') (JStr ''e1'')
   \<and> fst (registerUserForEvent ex_store (JStr ''u1'') (JStr ''e1'')) = True
   \<and> registerUserForEvent (snd (registerUserForEvent ex_store (JStr ''u1'') (JStr ''e1'')))
         (JStr ''u1'') (JStr ''e1'')
       = (False, snd (registerUserForEvent ex_store (JStr ''u1'') (JStr ''e1'')))
   \<and> getEventRegistrationCount
         (snd (registerUserForEvent ex_store (JStr ''u1'') (JStr ''e1''))) (JStr ''e1'') = 1
   \<and> getUserById ex_store (JStr ''u2'') = None
   \<and> registerUserForEvent ex_store (JStr ''u2'') (JStr ''e1'') = (False, ex_store)"
proof -
  have h1: "getUserById ex_store (JStr ''u1'') \<noteq> None
            \<and> getEventById ex_store (JStr ''e1'') \<noteq> None
            \<and> \<not> isUserRegisteredForEvent ex_store (JStr ''u1'') (JStr ''e1'')"
    by (simp add: ex_store_eq store_defs)
  have h2: "getUserById ex_store (JStr ''u2'') = None"
    by (simp add: ex_store_eq store_defs)
  have c: "getEventRegistrationCount ex_store (JStr ''e1'') = 0"
    by (simp add: ex_store_eq store_defs)
  show ?thesis
    using h1 h2 c
      registerUserForEvent_contract [of ex_store "JStr ''u1''" "JStr ''e1''"]
      registerUserForEvent_contract [of ex_store "JStr ''u2''" "JStr ''e1''"]
    by simp
qed

lemma unregister_twice:
  "snd (unregisterUserFromEvent (snd (unregisterUserFromEvent s U E)) U E)
     = snd (unregisterUserFromEvent s U E)"
  by (simp add: unregisterUserFromEvent_def map_entry_idem Set_delete_idem)

lemma unregister_funpow:
  "((\<lambda>t. snd (unregisterUserFromEvent t U E)) ^^ Suc n) s = snd (unregisterUserFromEvent s U E)"
proof (induction n)
  case 0
  show ?case by simp
next
  case (Suc n)
  have "((\<lambda>t. snd (unregisterUserFromEvent t U E)) ^^ Suc (Suc n)) s
          = snd (unregisterUserFromEvent
                   (((\<lambda>t. snd (unregisterUserFromEvent t U E)) ^^ Suc n) s) U E)"
    by simp
  also have "\<dots> = snd (unregisterUserFromEvent (snd (unregisterUserFromEvent s U E)) U E)"
    by (simp only: Suc.IH)
  finally show ?case
    by (simp only: unregister_twice)
qed

lemma unregister_no_edge:
  assumes "\<not> isUserRegisteredForEvent s U E" and "\<not> userHasRegistration s U E"
  shows "unregisterUserFromEvent s U E = (True, s)"
proof -
  have "AList.map_entry E (Set_delete U) (eventRegistrations s) = eventRegistrations s"
    using assms(1)
    by (intro map_entry_triv) (simp add: isUserRegisteredForEvent_def Set_delete_absent)
  moreover have "AList.map_entry U (Set_delete E) (userRegistrations s) = userRegistrations s"
    using assms(2)
    by (intro map_entry_triv) (simp add: userHasRegistration_def Set_delete_absent)
  ultimately show ?thesis
    by (simp add: unregisterUserFromEvent_def)
qed

text \<open>
  Claim C9 (unregister idempotence). \<open>unregisterUserFromEvent(U, E)\<close> returns true in
  every state. Afterwards the pair \<open>(U, E)\<close> is in neither index and every other pair is
  as before. When the pair was in neither index, the store is left as it was, and so is
  every registration count. Calling it \<open>n + 1\<close> times in a row leaves the same store as
  calling it once.
\<close>

theorem unregisterUserFromEvent_idempotent:
  "fst (unregisterUserFromEvent s U E) = True
   \<and> (\<forall>U' E'. isUserRegisteredForEvent (snd (unregisterUserFromEvent s U E)) U' E'
         \<longleftrightarrow> \<not> (U' = U \<and> E' = E) \<and> isUserRegisteredForEvent s U' E')
   \<and> (\<forall>U' E'. userHasRegistration (snd (unregisterUserFromEvent s U E)) U' E'
         \<longleftrightarrow> \<not> (U' = U \<and> E' = E) \<and> userHasRegistration s U' E')
   \<and> (\<not> isUserRegisteredForEvent s U E \<and> \<not> userHasRegistration s U E
        \<longrightarrow> unregisterUserFromEvent s U E = (True, s)
          \<and> (\<forall>E'. getEventRegistrationCount (snd (unregisterUserFromEvent s U E)) E'
                 = getEventRegistrationCount s E'))
   \<and> (\<forall>n. ((\<lambda>t. snd (unregisterUserFromEvent t U E)) ^^ Suc n) s
         = snd (unregisterUserFromEvent s U E))"
proof -
  have a: "fst (unregisterUserFromEvent s U E) = True"
    by (simp add: unregisterUserFromEvent_def)
  have b: "isUserRegisteredForEvent (snd (unregisterUserFromEvent s U E)) U' E'
         \<longleftrightarrow> \<not> (U' = U \<and> E' = E) \<and> isUserRegisteredForEvent s U' E'" for U' E'
    by (auto simp: store_defs AList.map_of_map_entry split: option.splits)
  have c: "userHasRegistration (snd (unregisterUserFromEvent s U E)) U' E'
         \<longleftrightarrow> \<not> (U' = U \<and> E' = E) \<and> userHasRegistration s U' E'" for U' E'
    by (auto simp: store_defs AList.map_of_map_entry split: option.splits)
  have d: "unregisterUserFromEvent s U E = (True, s)
          \<and> (\<forall>E'. getEventRegistrationCount (snd (unregisterUserFromEvent s U E)) E'
                 = getEventRegistrationCount s E')"
    if "\<not> isUserRegisteredForEvent s U E \<and> \<not> userHasRegistration s U E"
    using that by (simp add: unregister_no_edge)
  show ?thesis
  proof (intro conjI allI impI)
    show "fst (unregisterUserFromEvent s U E) = True"
      by (rule a)
  next
    fix U' E'
    show "isUserRegisteredForEvent (snd (unregisterUserFromEvent s U E)) U' E'
         \<longleftrightarrow> \<not> (U' = U \<and> E' = E) \<and> isUserRegisteredForEvent s U' E'"
      by (rule b)
  next
    fix U' E'
    show "userHasRegistration (snd (unregisterUserFromEvent s U E)) U' E'
         \<longleftrightarrow> \<not> (U' = U \<and> E' = E) \<and> userHasRegistration s U' E'"
      by (rule c)
  next
    assume "\<not> isUserRegisteredForEvent s U E \<and> \<not> userHasRegistration s U E"
    then show "unregisterUserFromEvent s U E = (True, s)"
      using d by simp
  next
    fix E'
    assume "\<not> isUserRegisteredForEvent s U E \<and> \<not> userHasRegistration s U E"
    then show "getEventRegistrationCount (snd (unregisterUserFromEvent s U E)) E'
                 = getEventRegistrationCount s E'"
      using d by simp
  next
    fix n
    show "((\<lambda>t. snd (unregisterUserFromEvent t U E)) ^^ Suc n) s
         = snd (unregisterUserFromEvent s U E)"
      by (rule unregister_funpow)
  qed
qed

theorem unregisterUserFromEvent_idempotent_witness:
  "\<not> isUserRegisteredForEvent ex_store (JStr ''u1'') (JStr ''e1'')
   \<and> \<not> userHasRegistration ex_store (JStr ''u1'') (JStr ''e1'')
   \<and> unregisterUserFromEvent ex_store (JStr ''u1'') (JStr ''e1'') = (True, ex_store)
   \<and> getEventRegistrationCount
         (snd (unregisterUserFromEvent ex_store (JStr ''u1'') (JStr ''e1''))) (JStr ''e1'') = 0"
proof -
  have h: "\<not> isUserRegisteredForEvent ex_store (JStr ''u1'') (JStr ''e1'')
           \<and> \<not> userHasRegistration ex_store (JStr ''u1'') (JStr ''e1'')"
    by (simp add: ex_store_eq store_defs)
  have c: "getEventRegistrationCount ex_store (JStr ''e1'') = 0"
    by (simp add: ex_store_eq store_defs)
  show ?thesis
    using h c unregisterUserFromEvent_idempotent [of ex_store "JStr ''u1''" "JStr ''e1''"]
    by simp
qed

section \<open>Creating a user\<close>

text \<open>
  Claim C6 as stated says that \<open>createUser\<close> fails when the identifier is already
  present and keeps the stored record and its registration set. It does not: after the run
  \<^const>\<open>ex_ops\<close> the user \<open>u1\<close> is stored and registered for \<open>e1\<close>; creating another
  record under \<open>u1\<close> returns that record, replaces the stored one and leaves \<open>u1\<close> with
  an empty registration set.
\<close>

theorem createUser_duplicate_counterexample:
  "getUserById (run ex_ops) (JStr ''u1'') = Some ex_user
   \<and> userHasRegistration (run ex_ops) (JStr ''u1'') (JStr ''e1'')
   \<and> fst (createUser (run ex_ops) ex_user_dup) = ex_user_dup
   \<and> getUserById (snd (createUser (run ex_ops) ex_user_dup)) (JStr ''u1'') = Some ex_user_dup
   \<and> ex_user_dup \<noteq> ex_user
   \<and> \<not> userHasRegistration (snd (createUser (run ex_ops) ex_user_dup)) (JStr ''u1'') (JStr ''e1'')"
  by (simp add: ex_run_eq createUser_def getUserById_def userHasRegistration_def
        ex_user_def ex_user_dup_def getp_def)

text \<open>
  Claim C6, amended. \<open>createUser(user)\<close> never fails: it returns the user, stores it
  under its identifier, replacing a record already stored there, and gives that
  identifier an empty registration set, replacing a set already there. Every other user
  and registration set, the events and the participant sets are as before.
\<close>

theorem createUser_overwrites:
  "fst (createUser s user) = user
   \<and> getUserById (snd (createUser s user)) (getp user ''id'') = Some user
   \<and> Map_get (userRegistrations (snd (createUser s user))) (getp user ''id'') = Some Set_new
   \<and> (\<forall>k. k \<noteq> getp user ''id'' \<longrightarrow>
          getUserById (snd (createUser s user)) k = getUserById s k
          \<and> Map_get (userRegistrations (snd (createUser s user))) k
              = Map_get (userRegistrations s) k)
   \<and> events (snd (createUser s user)) = events s
   \<and> eventRegistrations (snd (createUser s user)) = eventRegistrations s"
  by (simp add: createUser_def getUserById_def AList.update_conv')

theorem createUser_overwrites_witness:
  "JStr ''u2'' \<noteq> getp ex_user_dup ''id''
   \<and> getUserById (snd (createUser (run ex_ops) ex_user_dup)) (JStr ''u1'') = Some ex_user_dup
   \<and> getUserById (snd (createUser (run ex_ops) ex_user_dup)) (JStr ''u2'') = None"
proof -
  have h: "JStr ''u2'' \<noteq> getp ex_user_dup ''id''" "getp ex_user_dup ''id'' = JStr ''u1''"
    by (simp_all add: ex_user_dup_def getp_def)
  have n: "getUserById (run ex_ops) (JStr ''u2'') = None"
    by (simp add: ex_run_eq getUserById_def)
  show ?thesis
    using h n createUser_overwrites [of "run ex_ops" ex_user_dup]
    by simp
qed

section \<open>Cascading deletes\<close>

text \<open>
  Claim C4 (cascade on user delete). In a state where \<open>U\<close> is a stored user with record
  \<open>u\<close>, registered for \<open>E\<close>: \<open>deleteUser(U)\<close> returns \<open>u\<close>; afterwards \<open>U\<close> has
  neither a record nor a registration set and is in no participant set, the participant
  sets are otherwise as before, \<open>isUserRegisteredForEvent(U, E)\<close> is false, the
  registration count of \<open>E\<close> is one less than before, and \<open>getEventById(E)\<close> gives what
  it gave before. When \<open>U\<close> is not stored, \<open>deleteUser(U)\<close> returns \<open>null\<close> and leaves
  the store as it was.
\<close>

theorem deleteUser_cascade:
  "(getUserById s U = Some u \<and> isUserRegisteredForEvent s U E \<longrightarrow>
      fst (deleteUser s U) = Some u
      \<and> getUserById (snd (deleteUser s U)) U = None
      \<and> Map_get (userRegistrations (snd (deleteUser s U))) U = None
      \<and> (\<forall>E'. \<not> isUserRegisteredForEvent (snd (deleteUser s U)) U E')
      \<and> (\<forall>U' E'. U' \<noteq> U \<longrightarrow>
            isUserRegisteredForEvent (snd (deleteUser s U)) U' E'
              = isUserRegisteredForEvent s U' E')
      \<and> \<not> isUserRegisteredForEvent (snd (deleteUser s U)) U E
      \<and> getEventRegistrationCount (snd (deleteUser s U)) E + 1 = getEventRegistrationCount s E
      \<and> getEventById (snd (deleteUser s U)) E = getEventById s E)
   \<and> (getUserById s U = None \<longrightarrow> deleteUser s U = (None, s))"
proof (intro conjI impI)
  assume a: "getUserById s U = Some u \<and> isUserRegisteredForEvent s U E"
  then have u: "Map_get (users s) U = Some u"
    by (simp add: getUserById_def)
  from a obtain r where r: "Map_get (eventRegistrations s) E = Some r" "Set_has r U"
    by (auto simp: isUserRegisteredForEvent_def split: option.splits)
  show "fst (deleteUser s U) = Some u"
    using u by (simp add: deleteUser_def)
  show "getUserById (snd (deleteUser s U)) U = None"
    by (simp add: getUserById_def deleteUser_records)
  show "Map_get (userRegistrations (snd (deleteUser s U))) U = None"
    using u by (simp add: deleteUser_def AList.delete_conv')
  show "\<forall>E'. \<not> isUserRegisteredForEvent (snd (deleteUser s U)) U E'"
    using u by (simp add: deleteUser_isReg)
  show "\<forall>U' E'. U' \<noteq> U \<longrightarrow>
            isUserRegisteredForEvent (snd (deleteUser s U)) U' E'
              = isUserRegisteredForEvent s U' E'"
    by (simp add: deleteUser_isReg)
  show "\<not> isUserRegisteredForEvent (snd (deleteUser s U)) U E"
    using u by (simp add: deleteUser_isReg)
  show "getEventRegistrationCount (snd (deleteUser s U)) E + 1 = getEventRegistrationCount s E"
    using u r by (simp add: deleteUser_def getEventRegistrationCount_def map_of_map
          Set_size_delete)
  show "getEventById (snd (deleteUser s U)) E = getEventById s E"
    by (simp add: getEventById_def deleteUser_records)
next
  assume "getUserById s U = None"
  then show "deleteUser s U = (None, s)"
    by (simp add: getUserById_def deleteUser_def)
qed

theorem deleteUser_cascade_witness:
  "getUserById (run ex_ops) (JStr ''u1'') = Some ex_user
   \<and> isUserRegisteredForEvent (run ex_ops) (JStr ''u1'') (JStr ''e1'')
   \<and> fst (deleteUser (run ex_ops) (JStr ''u1'')) = Some ex_user
   \<and> \<not> isUserRegisteredForEvent (snd (deleteUser (run ex_ops) (JStr ''u1'')))
         (JStr ''u1'') (JStr ''e1'')
   \<and> getEventRegistrationCount (run ex_ops) (JStr ''e1'') = 1
   \<and> getEventRegistrationCount (snd (deleteUser (run ex_ops) (JStr ''u1''))) (JStr ''e1'') = 0
   \<and> getEventById (snd (deleteUser (run ex_ops) (JStr ''u1''))) (JStr ''e1'') = Some ex_event
   \<and> getUserById (run ex_ops) (JStr ''u2'') = None
   \<and> deleteUser (run ex_ops) (JStr ''u2'') = (None, run ex_ops)"
proof -
  have h: "getUserById (run ex_ops) (JStr ''u1'') = Some ex_user
           \<and> isUserRegisteredForEvent (run ex_ops) (JStr ''u1'') (JStr ''e1'')"
    by (simp add: ex_run_eq store_defs)
  have n: "getUserById (run ex_ops) (JStr ''u2'') = None"
    by (simp add: ex_run_eq store_defs)
  have c: "getEventRegistrationCount (run ex_ops) (JStr ''e1'') = 1"
    by (simp add: ex_run_eq store_defs Set_size_add)
  have e: "getEventById (run ex_ops) (JStr ''e1'') = Some ex_event"
    by (simp add: ex_run_eq store_defs)
  show ?thesis
    using h n c e
      deleteUser_cascade [of "run ex_ops" "JStr ''u1''" ex_user "JStr ''e1''"]
      deleteUser_cascade [of "run ex_ops" "JStr ''u2''" ex_user "JStr ''e1''"]
    by simp
qed

text \<open>
  Claim C5 (cascade on event delete). In a state where \<open>E\<close> is a stored event with
  record \<open>ev\<close> and \<open>U\<close> is in its participant set: \<open>deleteEvent(E)\<close> returns \<open>ev\<close>;
  afterwards \<open>E\<close> has neither a record nor a participant set, \<open>E\<close> is in the
  registration set of no user who was in its participant set, the registration sets are
  otherwise as before, every event that \<open>getUserRegistrations(U)\<close> returns is resolved
  from an identifier other than \<open>E\<close>, and \<open>getUserById(U)\<close> gives what it gave before.
  When \<open>E\<close> is not stored, \<open>deleteEvent(E)\<close> returns \<open>null\<close> and leaves the store as it
  was.
\<close>

theorem deleteEvent_cascade:
  "(getEventById s E = Some ev \<and> isUserRegisteredForEvent s U E \<longrightarrow>
      fst (deleteEvent s E) = Some ev
      \<and> getEventById (snd (deleteEvent s E)) E = None
      \<and> Map_get (eventRegistrations (snd (deleteEvent s E))) E = None
      \<and> (\<forall>U'. isUserRegisteredForEvent s U' E \<longrightarrow>
            \<not> userHasRegistration (snd (deleteEvent s E)) U' E)
      \<and> (\<forall>U' E'. E' \<noteq> E \<longrightarrow>
            userHasRegistration (snd (deleteEvent s E)) U' E' = userHasRegistration s U' E')
      \<and> \<not> userHasRegistration (snd (deleteEvent s E)) U E
      \<and> (\<forall>x \<in> set (getUserRegistrations (snd (deleteEvent s E)) U).
            \<exists>E'. E' \<noteq> E \<and> userHasRegistration s U E' \<and> getEventById s E' = Some x)
      \<and> getUserById (snd (deleteEvent s E)) U = getUserById s U)
   \<and> (getEventById s E = None \<longrightarrow> deleteEvent s E = (None, s))"
proof (intro conjI impI)
  assume a: "getEventById s E = Some ev \<and> isUserRegisteredForEvent s U E"
  then have e: "Map_get (events s) E = Some ev"
    by (simp add: getEventById_def)
  show "fst (deleteEvent s E) = Some ev"
    using e by (simp add: deleteEvent_def Let_def)
  show "getEventById (snd (deleteEvent s E)) E = None"
    by (simp add: getEventById_def deleteEvent_records)
  show "Map_get (eventRegistrations (snd (deleteEvent s E))) E = None"
    using e by (simp add: deleteEvent_def Let_def AList.delete_conv')
  show "\<forall>U'. isUserRegisteredForEvent s U' E \<longrightarrow>
            \<not> userHasRegistration (snd (deleteEvent s E)) U' E"
    using e by (simp add: deleteEvent_userHas)
  show "\<forall>U' E'. E' \<noteq> E \<longrightarrow>
            userHasRegistration (snd (deleteEvent s E)) U' E' = userHasRegistration s U' E'"
    by (simp add: deleteEvent_userHas)
  show "\<not> userHasRegistration (snd (deleteEvent s E)) U E"
    using e a by (simp add: deleteEvent_userHas)
  show "\<forall>x \<in> set (getUserRegistrations (snd (deleteEvent s E)) U).
            \<exists>E'. E' \<noteq> E \<and> userHasRegistration s U E' \<and> getEventById s E' = Some x"
    using e a
    by (auto simp: getUserRegistrations_mem deleteEvent_userHas getEventById_def
          deleteEvent_records split: if_splits)
  show "getUserById (snd (deleteEvent s E)) U = getUserById s U"
    by (simp add: getUserById_def deleteEvent_records)
next
  assume "getEventById s E = None"
  then show "deleteEvent s E = (None, s)"
    by (simp add: getEventById_def deleteEvent_def)
qed

theorem deleteEvent_cascade_witness:
  "getEventById (run ex_ops) (JStr ''e1'') = Some ex_event
   \<and> isUserRegisteredForEvent (run ex_ops) (JStr ''u1'') (JStr ''e1'')
   \<and> getUserRegistrations (run ex_ops) (JStr ''u1'') = [ex_event]
   \<and> fst (deleteEvent (run ex_ops) (JStr ''e1'')) = Some ex_event
   \<and> \<not> userHasRegistration (snd (deleteEvent (run ex_ops) (JStr ''e1'')))
         (JStr ''u1'') (JStr ''e1'')
   \<and> getUserRegistrations (snd (deleteEvent (run ex_ops) (JStr ''e1''))) (JStr ''u1'') = []
   \<and> getUserById (snd (deleteEvent (run ex_ops) (JStr ''e1''))) (JStr ''u1'') = Some ex_user
   \<and> getEventById (run ex_ops) (JStr ''e2'') = None
   \<and> deleteEvent (run ex_ops) (JStr ''e2'') = (None, run ex_ops)"
proof -
  have h: "getEventById (run ex_ops) (JStr ''e1'') = Some ex_event
           \<and> isUserRegisteredForEvent (run ex_ops) (JStr ''u1'') (JStr ''e1'')"
    by (simp add: ex_run_eq store_defs)
  have n: "getEventById (run ex_ops) (JStr ''e2'') = None"
    by (simp add: ex_run_eq store_defs)
  have u: "getUserById (run ex_ops) (JStr ''u1'') = Some ex_user"
    by (simp add: ex_run_eq store_defs)
  have g: "getUserRegistrations (run ex_ops) (JStr ''u1'') = [ex_event]"
    by (simp add: ex_run_eq getUserRegistrations_def Set_values_add)
  have g': "getUserRegistrations (snd (deleteEvent (run ex_ops) (JStr ''e1''))) (JStr ''u1'') = []"
    by (simp add: ex_run_eq getUserRegistrations_def deleteEvent_def Set_values_add
          Set_values_delete)
  show ?thesis
    using h n u g g'
      deleteEvent_cascade [of "run ex_ops" "JStr ''e1''" ex_event "JStr ''u1''"]
      deleteEvent_cascade [of "run ex_ops" "JStr ''e2''" ex_event "JStr ''u1''"]
    by simp
qed

section \<open>Mirror consistency\<close>

lemma clear_frame:
  "\<not> isUserRegisteredForEvent (clear s) U E" "\<not> userHasRegistration (clear s) U E"
  by (simp_all add: clear_def isUserRegisteredForEvent_def userHasRegistration_def)

lemma store_inv_empty: "store_inv empty_store"
  by (simp add: store_inv_def mirror_def empty_store_def isUserRegisteredForEvent_def
        userHasRegistration_def)

lemma updateUser_isReg:
  "isUserRegisteredForEvent (snd (updateUser s i upd)) U E = isUserRegisteredForEvent s U E"
  "userHasRegistration (snd (updateUser s i upd)) U E = userHasRegistration s U E"
  by (simp_all add: isUserRegisteredForEvent_def userHasRegistration_def updateUser_frame)

lemma updateEvent_isReg:
  "isUserRegisteredForEvent (snd (updateEvent s i upd)) U E = isUserRegisteredForEvent s U E"
  "userHasRegistration (snd (updateEvent s i upd)) U E = userHasRegistration s U E"
  by (simp_all add: isUserRegisteredForEvent_def userHasRegistration_def updateEvent_frame)

lemma store_inv_step:
  assumes inv: "store_inv s" and fresh: "fresh_op s x"
  shows "store_inv (step s x)"
proof -
  from inv have m: "\<And>U E. isUserRegisteredForEvent s U E \<longleftrightarrow> userHasRegistration s U E"
    and d: "\<And>U E. isUserRegisteredForEvent s U E \<Longrightarrow> Map_has (users s) U \<and> Map_has (events s) E"
    by (auto simp: store_inv_def mirror_def)
  show ?thesis
  proof (cases x)
    case (CreateUser user)
    with fresh have f: "Map_get (users s) (getp user ''id'') = None" by simp
    have "\<not> userHasRegistration s (getp user ''id'') E" for E
      using m [of "getp user ''id''" E] d [of "getp user ''id''" E] f by auto
    then show ?thesis
      using m d CreateUser
      by (auto simp: store_inv_def mirror_def createUser_isReg createUser_userHas
            createUser_records)
  next
    case (CreateEvent event)
    with fresh have f: "Map_get (events s) (getp event ''id'') = None" by simp
    have "\<not> isUserRegisteredForEvent s U (getp event ''id'')" for U
      using d [of U "getp event ''id''"] f by auto
    then show ?thesis
      using m d CreateEvent
      by (auto simp: store_inv_def mirror_def createEvent_isReg createEvent_userHas
            createEvent_records)
  next
    case (UpdateUser i upd)
    then show ?thesis
      using m d by (simp add: store_inv_def mirror_def updateUser_isReg updateUser_frame)
  next
    case (UpdateEvent i upd)
    then show ?thesis
      using m d by (simp add: store_inv_def mirror_def updateEvent_isReg updateEvent_frame)
  next
    case (DeleteUser U)
    then show ?thesis
      using m d
      by (auto simp: store_inv_def mirror_def deleteUser_isReg deleteUser_userHas
            deleteUser_records)
  next
    case (DeleteEvent E)
    then show ?thesis
      using m d
      by (auto simp: store_inv_def mirror_def deleteEvent_isReg deleteEvent_userHas
            deleteEvent_records)
  next
    case (Register U E)
    then show ?thesis
      using m d register_True [of s U E]
      by (auto simp: store_inv_def mirror_def register_isReg register_userHas
            register_records)
  next
    case (Unregister U E)
    then show ?thesis
      using m d
      by (auto simp: store_inv_def mirror_def unregister_isReg unregister_userHas
            unregister_records)
  next
    case Clear
    then show ?thesis
      by (simp add: store_inv_def mirror_def clear_frame)
  qed
qed

lemma store_inv_run:
  "store_inv s \<Longrightarrow> fresh_run s ops \<Longrightarrow> store_inv (foldl step s ops)"
  by (induction ops arbitrary: s) (auto intro: store_inv_step)

lemma fresh_run_take: "fresh_run s ops \<Longrightarrow> fresh_run s (take n ops)"
proof (induction ops arbitrary: s n)
  case Nil
  then show ?case by simp
next
  case (Cons x xs)
  then show ?case by (cases n) auto
qed

text \<open>
  Claim C1 as stated quantifies over every sequence of store operations. It fails on a
  sequence that creates a user under an identifier already stored: after \<^const>\<open>ex_ops\<close>
  the user \<open>u1\<close> is registered for \<open>e1\<close>; creating \<open>u1\<close> again empties the
  registration set of \<open>u1\<close> while \<open>u1\<close> stays in the participant set of \<open>e1\<close>.
\<close>

theorem mirror_consistency_counterexample:
  "isUserRegisteredForEvent (run (ex_ops @ [CreateUser ex_user])) (JStr ''u1'') (JStr ''e1'')
   \<and> \<not> userHasRegistration (run (ex_ops @ [CreateUser ex_user])) (JStr ''u1'') (JStr ''e1'')"
proof -
  have "run (ex_ops @ [CreateUser ex_user]) = snd (createUser (run ex_ops) ex_user)"
    by (simp add: run_def)
  then show ?thesis
    by (simp add: ex_run_eq createUser_def isUserRegisteredForEvent_def
          userHasRegistration_def ex_user_def getp_def)
qed

text \<open>
  Claim C1, amended (mirror consistency). For every sequence of store operations from the
  empty store in which each \<open>createUser\<close> and each \<open>createEvent\<close> is given an
  identifier the store does not hold at that moment, after each operation and for every
  user id \<open>U\<close> and event id \<open>E\<close>: \<open>U\<close> is in the participant set of \<open>E\<close> if and only
  if \<open>E\<close> is in the registration set of \<open>U\<close>.
\<close>

theorem mirror_consistency_fresh_ids:
  assumes "fresh_run empty_store ops"
  shows "\<forall>n \<le> length ops. \<forall>U E.
           isUserRegisteredForEvent (run (take n ops)) U E
             \<longleftrightarrow> userHasRegistration (run (take n ops)) U E"
proof (intro allI impI)
  fix n U E
  from assms have "fresh_run empty_store (take n ops)"
    by (rule fresh_run_take)
  with store_inv_empty have "store_inv (run (take n ops))"
    unfolding run_def by (rule store_inv_run)
  then show "isUserRegisteredForEvent (run (take n ops)) U E
             \<longleftrightarrow> userHasRegistration (run (take n ops)) U E"
    by (simp add: store_inv_def mirror_def)
qed


theorem mirror_consistency_fresh_ids_witness:
  "fresh_run empty_store ex_ops
   \<and> isUserRegisteredForEvent (run ex_ops) (JStr ''u1'') (JStr ''e1'')
   \<and> userHasRegistration (run ex_ops) (JStr ''u1'') (JStr ''e1'')"
proof -
  have f: "fresh_run empty_store ex_ops"
    by (simp add: ex_ops_def empty_store_def createUser_def createEvent_def ex_user_def
          ex_event_def getp_def)
  have r: "isUserRegisteredForEvent (run ex_ops) (JStr ''u1'') (JStr ''e1'')"
    by (simp add: ex_run_eq isUserRegisteredForEvent_def)
  have l: "length ex_ops = 3"
    by (simp add: ex_ops_def)
  have "isUserRegisteredForEvent (run (take 3 ex_ops)) (JStr ''u1'') (JStr ''e1'')
          \<longleftrightarrow> userHasRegistration (run (take 3 ex_ops)) (JStr ''u1'') (JStr ''e1'')"
    using mirror_consistency_fresh_ids [OF f, rule_format, of 3 "JStr ''u1''" "JStr ''e1''"] l
    by simp
  with f r l show ?thesis
    by simp
qed

section \<open>Objects and the allow-lists of \<open>update\<close>\<close>


lemma map_of_setp: "Map_get (setp k v ob) k' = (if k' = k then Some v else Map_get ob k')"
  by (simp add: setp_def AList.update_conv')

lemma fold_guarded_setp_frame:
  "\<not> P k \<Longrightarrow>
     Map_get (fold (\<lambda>key this. if P key then setp key (g key) this else this) ks ob) k
       = Map_get ob k"
  by (induction ks arbitrary: ob) (auto simp: map_of_setp)

lemma Event_update_frame:
  assumes "k \<notin> set Event_allowedUpdates" and "k \<noteq> ''updatedAt''"
  shows "Map_get (Event_update h now e updates) k = Map_get e k"
proof -
  have eq: "(\<lambda>key this.
                if key \<in> set Event_allowedUpdates
                then (if key = ''date''
                      then setp key (JDate (new_Date h (getp updates key))) this
                      else setp key (getp updates key) this)
                else this)
         = (\<lambda>key this.
                if key \<in> set Event_allowedUpdates
                then setp key (if key = ''date'' then JDate (new_Date h (getp updates key))
                               else getp updates key) this
                else this)"
    by (intro ext) simp
  show ?thesis
    unfolding Event_update_def eq
    using assms by (simp add: map_of_setp fold_guarded_setp_frame)
qed

lemma User_update_frame:
  assumes "k \<notin> set User_allowedUpdates" and "k \<noteq> ''updatedAt''"
  shows "Map_get (User_update now u updates) k = Map_get u k"
  unfolding User_update_def
  using assms by (simp add: map_of_setp fold_guarded_setp_frame)

lemma ex_full_event_eq:
  "ex_full_event =
     [(''id'', JStr ''e1''), (''title'', JStr ''Talk''), (''description'', JStr ''A talk''),
      (''date'', JDate (Some 1893456000000)), (''time'', JStr ''14:00''),
      (''duration'', JNum (Fin 90)), (''location'', JStr ''Room 1''), (''maxParticipants'', JNum (Fin 2)),
      (''organizerId'', JStr ''u1''), (''category'', JStr ''General''),
      (''isPublic'', JBool True), (''createdAt'', JDate (Some 1700000000000)),
      (''updatedAt'', JDate (Some 1700000000000)), (''isActive'', JBool True),
      (''status'', JStr ''upcoming'')]"
  by (simp add: ex_full_event_def Event_new_def ex_event_data_def getp_def dflt_def
        new_Date_def ex_host_def TimeClip_time_num)

lemma ex_update_eq:
  "Event_update ex_host 1700000005000 ex_full_event ex_updates =
     [(''id'', JStr ''e1''), (''title'', JStr ''Workshop''), (''description'', JStr ''A talk''),
      (''date'', JDate (Some 1893456000000)), (''time'', JStr ''14:00''),
      (''duration'', JNum (Fin 90)), (''location'', JStr ''Room 1''), (''maxParticipants'', JNum (Fin 2)),
      (''organizerId'', JStr ''u1''), (''category'', JStr ''General''),
      (''isPublic'', JBool True), (''createdAt'', JDate (Some 1700000000000)),
      (''updatedAt'', JDate (Some 1700000005000)), (''isActive'', JBool True),
      (''status'', JStr ''upcoming'')]"
  by (simp add: ex_full_event_eq Event_update_def ex_updates_def Object_keys_def
        Event_allowedUpdates_def setp_def getp_def new_Date_def ex_host_def
        TimeClip_time_num)

text \<open>
  Claim C10 (allow-list frame). \<open>e.update(updates)\<close> on an event leaves every
  property outside \<open>title, description, date, time, duration, location, maxParticipants,
  category, isPublic, status\<close> and \<open>updatedAt\<close> as it was, whatever keys the updates
  carry; in particular \<open>id\<close> and \<open>organizerId\<close>. \<open>u.update(updates)\<close> on a user
  leaves every property outside \<open>firstName, lastName, email, role, isActive\<close> and
  \<open>updatedAt\<close> as it was; in particular \<open>id\<close> and \<open>password\<close>.
\<close>

theorem update_allow_list_frame:
  "(\<forall>k. k \<notin> set Event_allowedUpdates \<and> k \<noteq> ''updatedAt''
        \<longrightarrow> Map_get (Event_update h now e updates) k = Map_get e k)
   \<and> getp (Event_update h now e updates) ''id'' = getp e ''id''
   \<and> getp (Event_update h now e updates) ''organizerId'' = getp e ''organizerId''
   \<and> (\<forall>k. k \<notin> set User_allowedUpdates \<and> k \<noteq> ''updatedAt''
        \<longrightarrow> Map_get (User_update now' u updates') k = Map_get u k)
   \<and> getp (User_update now' u updates') ''id'' = getp u ''id''
   \<and> getp (User_update now' u updates') ''password'' = getp u ''password''"
proof -
  have e1: "Map_get (Event_update h now e updates) ''id'' = Map_get e ''id''"
    by (rule Event_update_frame) (simp_all add: Event_allowedUpdates_def)
  have e2: "Map_get (Event_update h now e updates) ''organizerId'' = Map_get e ''organizerId''"
    by (rule Event_update_frame) (simp_all add: Event_allowedUpdates_def)
  have u1: "Map_get (User_update now' u updates') ''id'' = Map_get u ''id''"
    by (rule User_update_frame) (simp_all add: User_allowedUpdates_def)
  have u2: "Map_get (User_update now' u updates') ''password'' = Map_get u ''password''"
    by (rule User_update_frame) (simp_all add: User_allowedUpdates_def)
  show ?thesis
    using e1 e2 u1 u2
    by (simp add: getp_def Event_update_frame User_update_frame)
qed

theorem update_allow_list_frame_witness:
  "''id'' \<notin> set Event_allowedUpdates \<and> ''id'' \<noteq> ''updatedAt''
   \<and> ''colour'' \<notin> set Event_allowedUpdates \<and> ''colour'' \<noteq> ''updatedAt''
   \<and> getp ex_updates ''id'' = JStr ''e9''
   \<and> getp (Event_update ex_host 1700000005000 ex_full_event ex_updates) ''id'' = JStr ''e1''
   \<and> getp (Event_update ex_host 1700000005000 ex_full_event ex_updates) ''organizerId''
       = JStr ''u1''
   \<and> Map_get (Event_update ex_host 1700000005000 ex_full_event ex_updates) ''colour'' = None
   \<and> getp (Event_update ex_host 1700000005000 ex_full_event ex_updates) ''title''
       = JStr ''Workshop''
   \<and> ''password'' \<notin> set User_allowedUpdates \<and> ''password'' \<noteq> ''updatedAt''
   \<and> getp ex_user_updates ''password'' = JStr ''plain''
   \<and> getp (User_update 1700000005000 (User_new ''u1'' 1700000000000 ex_user_data)
              ex_user_updates) ''password'' = JStr ''$2a$hash''
   \<and> getp (User_update 1700000005000 (User_new ''u1'' 1700000000000 ex_user_data)
              ex_user_updates) ''id'' = JStr ''u1''
   \<and> getp (User_update 1700000005000 (User_new ''u1'' 1700000000000 ex_user_data)
              ex_user_updates) ''firstName'' = JStr ''Anna''"
proof -
  have a: "''id'' \<notin> set Event_allowedUpdates \<and> ''id'' \<noteq> ''updatedAt''
           \<and> ''colour'' \<notin> set Event_allowedUpdates \<and> ''colour'' \<noteq> ''updatedAt''
           \<and> ''password'' \<notin> set User_allowedUpdates \<and> ''password'' \<noteq> ''updatedAt''"
    by (simp add: Event_allowedUpdates_def User_allowedUpdates_def)
  have b: "getp ex_updates ''id'' = JStr ''e9''" "getp ex_user_updates ''password'' = JStr ''plain''"
    by (simp_all add: ex_updates_def ex_user_updates_def getp_def)
  have c: "getp ex_full_event ''id'' = JStr ''e1''"
    "getp ex_full_event ''organizerId'' = JStr ''u1''"
    "Map_get ex_full_event ''colour'' = None"
    by (simp_all add: ex_full_event_eq getp_def)
  have d: "getp (Event_update ex_host 1700000005000 ex_full_event ex_updates) ''title''
             = JStr ''Workshop''"
    by (simp add: ex_update_eq getp_def)
  have e: "getp (User_new ''u1'' 1700000000000 ex_user_data) ''password'' = JStr ''$2a$hash''"
    "getp (User_new ''u1'' 1700000000000 ex_user_data) ''id'' = JStr ''u1''"
    by (simp_all add: User_new_def ex_user_data_def getp_def)
  have f: "getp (User_update 1700000005000 (User_new ''u1'' 1700000000000 ex_user_data)
              ex_user_updates) ''firstName'' = JStr ''Anna''"
    by (simp add: User_update_def User_new_def ex_user_data_def ex_user_updates_def
          Object_keys_def User_allowedUpdates_def setp_def getp_def dflt_def)
  show ?thesis
    using a b c d e f
      update_allow_list_frame [of ex_host 1700000005000 ex_full_event ex_updates
        1700000005000 "User_new ''u1'' 1700000000000 ex_user_data" ex_user_updates]
    by simp
qed

section \<open>Capacity\<close>

lemma ex_cap_store_eq:
  "ex_cap_store
     = \<lparr>users = [(JStr ''u1'', [(''id'', JStr ''u1'')]), (JStr ''u2'', [(''id'', JStr ''u2'')]),
                 (JStr ''u3'', [(''id'', JStr ''u3'')])],
        events = [(JStr ''e1'', ex_full_event)],
        eventRegistrations = [(JStr ''e1'', Set_new)],
        userRegistrations = [(JStr ''u1'', Set_new), (JStr ''u2'', Set_new),
                             (JStr ''u3'', Set_new)]\<rparr>"
  by (simp add: ex_cap_store_def run_def createUser_def createEvent_def empty_store_def
        getp_def ex_full_event_eq)

text \<open>
  Claim C8 (capacity decision). For every event and every natural number \<open>n\<close> of
  current participants: \<open>isFull\<close> is false when \<open>maxParticipants\<close> is \<open>null\<close>, which
  is what the constructor stores when none is given; when \<open>maxParticipants\<close> is a
  finite number \<open>m\<close>, \<open>isFull\<close> is true if and only if \<open>n \<ge> m\<close>; with \<open>maxParticipants = 2\<close> it is
  false at 0 and at 1 participants and true at 2.
\<close>

theorem isFull_capacity:
  "(getp e ''maxParticipants'' = JNull \<longrightarrow> \<not> isFull e (int n))
   \<and> (getp p ''maxParticipants'' = JUndefined \<longrightarrow> \<not> isFull (Event_new h uuid now p) (int n))
   \<and> (getp e ''maxParticipants'' = JNum (Fin m) \<longrightarrow> (isFull e (int n) \<longleftrightarrow> m \<le> of_nat n))
   \<and> (getp e ''maxParticipants'' = JNum (Fin 2)
        \<longrightarrow> \<not> isFull e 0 \<and> \<not> isFull e 1 \<and> isFull e 2)"
  by (auto simp: isFull_def num_ge_def num_le_def Event_new_def getp_def dflt_def)

theorem isFull_capacity_witness:
  "getp ex_full_event ''maxParticipants'' = JNum (Fin 2)
   \<and> \<not> isFull ex_full_event (int (getEventRegistrationCount ex_cap_store (JStr ''e1'')))
   \<and> fst (registerUserForEvent ex_cap_store (JStr ''u1'') (JStr ''e1''))
   \<and> \<not> isFull ex_full_event
         (int (getEventRegistrationCount
                 (snd (registerUserForEvent ex_cap_store (JStr ''u1'') (JStr ''e1'')))
                 (JStr ''e1'')))
   \<and> fst (registerUserForEvent
             (snd (registerUserForEvent ex_cap_store (JStr ''u1'') (JStr ''e1'')))
             (JStr ''u2'') (JStr ''e1''))
   \<and> isFull ex_full_event
         (int (getEventRegistrationCount
                 (snd (registerUserForEvent
                         (snd (registerUserForEvent ex_cap_store (JStr ''u1'') (JStr ''e1'')))
                         (JStr ''u2'') (JStr ''e1'')))
                 (JStr ''e1'')))
   \<and> getp ex_past_event_data ''maxParticipants'' = JUndefined
   \<and> getp (Event_new ex_host ''e3'' 1700000000000 ex_past_event_data) ''maxParticipants'' = JNull
   \<and> \<not> isFull (Event_new ex_host ''e3'' 1700000000000 ex_past_event_data) (int 1000)"
proof -
  have m: "getp ex_full_event ''maxParticipants'' = JNum (Fin 2)"
    by (simp add: ex_full_event_eq getp_def)
  have c0: "getEventRegistrationCount ex_cap_store (JStr ''e1'') = 0"
    by (simp add: ex_cap_store_eq getEventRegistrationCount_def)
  have r1: "registerUserForEvent ex_cap_store (JStr ''u1'') (JStr ''e1'')
              = (True, ex_cap_store\<lparr>eventRegistrations := [(JStr ''e1'', Set_add (JStr ''u1'') Set_new)],
                   userRegistrations := [(JStr ''u1'', Set_add (JStr ''e1'') Set_new),
                      (JStr ''u2'', Set_new), (JStr ''u3'', Set_new)]\<rparr>)"
    by (simp add: ex_cap_store_eq registerUserForEvent_def)
  have c1: "getEventRegistrationCount
              (snd (registerUserForEvent ex_cap_store (JStr ''u1'') (JStr ''e1''))) (JStr ''e1'') = 1"
    by (simp add: r1 getEventRegistrationCount_def Set_size_add)
  have r2: "registerUserForEvent
              (snd (registerUserForEvent ex_cap_store (JStr ''u1'') (JStr ''e1'')))
              (JStr ''u2'') (JStr ''e1'')
              = (True, ex_cap_store\<lparr>eventRegistrations :=
                      [(JStr ''e1'', Set_add (JStr ''u2'') (Set_add (JStr ''u1'') Set_new))],
                   userRegistrations := [(JStr ''u1'', Set_add (JStr ''e1'') Set_new),
                      (JStr ''u2'', Set_add (JStr ''e1'') Set_new), (JStr ''u3'', Set_new)]\<rparr>)"
    by (simp add: r1) (simp add: ex_cap_store_eq registerUserForEvent_def)
  have c2: "getEventRegistrationCount
              (snd (registerUserForEvent
                      (snd (registerUserForEvent ex_cap_store (JStr ''u1'') (JStr ''e1'')))
                      (JStr ''u2'') (JStr ''e1''))) (JStr ''e1'') = 2"
    by (simp add: r2 getEventRegistrationCount_def Set_size_add)
  have u: "getp ex_past_event_data ''maxParticipants'' = JUndefined"
    by (simp add: ex_past_event_data_def getp_def)
  have n: "getp (Event_new ex_host ''e3'' 1700000000000 ex_past_event_data)
             ''maxParticipants'' = JNull"
    by (simp add: Event_new_def getp_def dflt_def ex_past_event_data_def)
  show ?thesis
    using m c0 c1 c2 r1 r2 u n
      isFull_capacity [where e = ex_full_event and n = 0 and m = 2]
      isFull_capacity [where p = ex_past_event_data and n = 1000 and h = ex_host and uuid = "''e3''"
        and now = 1700000000000]
    by simp
qed

section \<open>Times of day and local time\<close>

text \<open>\<open>Number\<close> on a string of digits, and on some other strings.\<close>

lemma is_digit_val: "is_digit c \<Longrightarrow> 0 \<le> digit_val c \<and> digit_val c \<le> 9 \<and> c \<noteq> CHR '':''"
  by (auto simp: is_digit_def digit_val_def)

lemma is_digit_plain:
  "is_digit c \<Longrightarrow>
     \<not> is_space c \<and> c \<noteq> CHR ''+'' \<and> c \<noteq> CHR ''-'' \<and> c \<noteq> CHR ''.'' \<and> c \<noteq> CHR ''I''
     \<and> c \<noteq> CHR ''x'' \<and> c \<noteq> CHR ''X'' \<and> c \<noteq> CHR ''o'' \<and> c \<noteq> CHR ''O''
     \<and> c \<noteq> CHR ''b'' \<and> c \<noteq> CHR ''B''"
  by (auto simp: is_digit_def is_space_def)

lemma tens_digit_val: "c \<in> set ''012345'' \<Longrightarrow> is_digit c \<and> digit_val c \<le> 5"
  by (auto simp: is_digit_def digit_val_def)

lemma hour_digit_val:
  "c \<in> set ''01'' \<Longrightarrow> is_digit c \<and> digit_val c \<le> 1"
  "c \<in> set ''0123'' \<Longrightarrow> is_digit c \<and> digit_val c \<le> 3"
  "is_digit (CHR ''2'') \<and> digit_val (CHR ''2'') = 2"
  by (auto simp: is_digit_def digit_val_def)

lemma trim_digits:
  assumes "s \<noteq> []" and "list_all is_digit s"
  shows "trim s = s"
proof -
  from assms obtain a r where s: "s = a # r" by (cases s) auto
  with assms(2) have "\<not> is_space a" using is_digit_plain by simp
  then have 1: "dropWhile is_space s = s" by (simp add: s)
  from assms have "is_digit (last s)" by (simp add: list_all_iff)
  then have "\<not> is_space (last s)" using is_digit_plain by simp
  then have 2: "dropWhile is_space (rev s) = rev s"
    using assms(1) by (cases "rev s") (auto simp: last_rev [symmetric] simp del: last_rev)
  show ?thesis by (simp add: trim_def 1 2)
qed

lemma StrUnsignedDecimalLiteral_digits:
  assumes "s \<noteq> []" and "list_all is_digit s"
  shows "StrUnsignedDecimalLiteral s = Fin (of_int (digits_val s))"
proof -
  from assms obtain a r where s: "s = a # r" by (cases s) auto
  with assms(2) have "a \<noteq> CHR ''I''" using is_digit_plain by simp
  then have n: "s \<noteq> ''Infinity''" by (auto simp: s)
  have t: "takeWhile is_digit s = s" "dropWhile is_digit s = []"
    using assms(2) by (simp_all add: list_all_iff)
  show ?thesis
    using assms(1) by (simp add: StrUnsignedDecimalLiteral_def n t Let_def)
qed

lemma Number_str_digits:
  assumes "s \<noteq> []" and "list_all is_digit s"
  shows "Number_str s = Fin (of_int (digits_val s))"
proof -
  from assms obtain a r where s: "s = a # r" by (cases s) auto
  with assms(2) have a: "is_digit a" by simp
  have d: "StrDecimalLiteral s = Fin (of_int (digits_val s))"
    using is_digit_plain [OF a] StrUnsignedDecimalLiteral_digits [OF assms]
    by (simp add: StrDecimalLiteral_def s)
  have "Number_str s = StrDecimalLiteral s"
  proof (cases r)
    case Nil
    then show ?thesis
      using assms by (simp add: Number_str_def trim_digits Let_def s)
  next
    case (Cons b r')
    with assms(2) s have "is_digit b" by simp
    from is_digit_plain [OF this] show ?thesis
      using assms Cons by (simp add: Number_str_def trim_digits Let_def s)
  qed
  with d show ?thesis by simp
qed

lemma Number_str_1: "is_digit a \<Longrightarrow> Number_str [a] = Fin (of_int (digit_val a))"
  by (simp add: Number_str_digits digits_val_def)

lemma Number_str_2:
  "is_digit a \<Longrightarrow> is_digit b \<Longrightarrow>
     Number_str [a, b] = Fin (of_int (10 * digit_val a + digit_val b))"
  by (simp add: Number_str_digits digits_val_def)

lemma Number_str_examples:
  "Number_str '' 14'' = Fin 14"
  "Number_str ''-1.5e1 '' = Fin (- 15)"
  "Number_str ''0x1F'' = Fin 31"
  "Number_str ''noon'' = NaN"
  "Number_str ''.'' = NaN"
  "Number_str ''-Infinity'' = NInf"
  by (simp_all add: Number_str_def trim_def is_space_def StrDecimalLiteral_def
        StrUnsignedDecimalLiteral_def parse_radix_def radix_digit_def is_digit_def Let_def
        digits_val_def digit_val_def ExponentPart_def DecimalDigits_def scale10_def)

lemma Number_str_14: "Number_str ''14'' = Fin 14"
  using Number_str_digits [of "''14''"] by (simp add: digits_val_def digit_val_def is_digit_def)

lemma Number_str_00: "Number_str ''00'' = Fin 0"
  using Number_str_digits [of "''00''"] by (simp add: digits_val_def digit_val_def is_digit_def)

lemma Number_str_1s: "Number_str ''1'' = Fin 1"
  using Number_str_digits [of "''1''"] by (simp add: digits_val_def digit_val_def is_digit_def)

lemma Number_str_30: "Number_str ''30'' = Fin 30"
  using Number_str_digits [of "''30''"] by (simp add: digits_val_def digit_val_def is_digit_def)

lemmas Number_str_ex = Number_str_14 Number_str_00 Number_str_1s Number_str_30

lemma splitOn_1: "a \<noteq> c \<Longrightarrow> m1 \<noteq> c \<Longrightarrow> m2 \<noteq> c \<Longrightarrow> splitOn c [a, c, m1, m2] = [[a], [m1, m2]]"
  by simp

lemma splitOn_2:
  "a \<noteq> c \<Longrightarrow> b \<noteq> c \<Longrightarrow> m1 \<noteq> c \<Longrightarrow> m2 \<noteq> c \<Longrightarrow>
     splitOn c [a, b, c, m1, m2] = [[a, b], [m1, m2]]"
  by simp

lemma time_format_parts:
  assumes "time_format t"
  shows "\<exists>hh mm. map Number_str (splitOn (CHR '':'') t) = [Fin (of_int hh), Fin (of_int mm)]
                 \<and> 0 \<le> hh \<and> hh < 24 \<and> 0 \<le> mm \<and> mm < 60"
proof -
  from assms consider
      (short) h2 m1 m2 where "t = [h2, CHR '':'', m1, m2]" "is_digit h2"
        "m1 \<in> set ''012345''" "is_digit m2"
    | (teens) h1 h2 m1 m2 where "t = [h1, h2, CHR '':'', m1, m2]" "h1 \<in> set ''01''"
        "is_digit h2" "m1 \<in> set ''012345''" "is_digit m2"
    | (twenties) h2 m1 m2 where "t = [CHR ''2'', h2, CHR '':'', m1, m2]" "h2 \<in> set ''0123''"
        "m1 \<in> set ''012345''" "is_digit m2"
    unfolding time_format_def by (auto split: list.splits)
  then show ?thesis
  proof cases
    case short
    have "splitOn (CHR '':'') t = [[h2], [m1, m2]]"
      unfolding short(1) using short(2-4) is_digit_val tens_digit_val
      by (intro splitOn_1) blast+
    then have "map Number_str (splitOn (CHR '':'') t)
                 = [Fin (of_int (digit_val h2)), Fin (of_int (10 * digit_val m1 + digit_val m2))]"
      using short(2-4) tens_digit_val by (simp add: Number_str_1 Number_str_2)
    moreover have "0 \<le> digit_val h2 \<and> digit_val h2 < 24"
      using is_digit_val [OF short(2)] by simp
    moreover have "0 \<le> 10 * digit_val m1 + digit_val m2 \<and> 10 * digit_val m1 + digit_val m2 < 60"
      using tens_digit_val [OF short(3)] is_digit_val [of m1] is_digit_val [OF short(4)]
      by simp
    ultimately show ?thesis
      by (intro exI [of _ "digit_val h2"] exI [of _ "10 * digit_val m1 + digit_val m2"]) simp
  next
    case teens
    have "splitOn (CHR '':'') t = [[h1, h2], [m1, m2]]"
      unfolding teens(1) using teens(2-5) is_digit_val tens_digit_val hour_digit_val(1)
      by (intro splitOn_2) blast+
    then have "map Number_str (splitOn (CHR '':'') t)
                 = [Fin (of_int (10 * digit_val h1 + digit_val h2)),
                    Fin (of_int (10 * digit_val m1 + digit_val m2))]"
      using teens(2-5) tens_digit_val hour_digit_val(1) by (simp add: Number_str_2)
    moreover have "0 \<le> 10 * digit_val h1 + digit_val h2 \<and> 10 * digit_val h1 + digit_val h2 < 24"
      using hour_digit_val(1) [OF teens(2)] is_digit_val [of h1] is_digit_val [OF teens(3)]
      by simp
    moreover have "0 \<le> 10 * digit_val m1 + digit_val m2 \<and> 10 * digit_val m1 + digit_val m2 < 60"
      using tens_digit_val [OF teens(4)] is_digit_val [of m1] is_digit_val [OF teens(5)]
      by simp
    ultimately show ?thesis
      by (intro exI [of _ "10 * digit_val h1 + digit_val h2"] exI [of _ "10 * digit_val m1 + digit_val m2"]) simp
  next
    case twenties
    have "splitOn (CHR '':'') t = [[CHR ''2'', h2], [m1, m2]]"
      unfolding twenties(1) using twenties(2-4) is_digit_val tens_digit_val hour_digit_val(2)
      by (intro splitOn_2) (blast | simp)+
    then have "map Number_str (splitOn (CHR '':'') t)
                 = [Fin (of_int (10 * digit_val (CHR ''2'') + digit_val h2)),
                    Fin (of_int (10 * digit_val m1 + digit_val m2))]"
      using twenties(2-4) tens_digit_val hour_digit_val(2,3) by (simp add: Number_str_2)
    moreover have "0 \<le> 10 * digit_val (CHR ''2'') + digit_val h2
                   \<and> 10 * digit_val (CHR ''2'') + digit_val h2 < 24"
      using hour_digit_val(2) [OF twenties(2)] is_digit_val [of h2] hour_digit_val(3)
      by simp
    moreover have "0 \<le> 10 * digit_val m1 + digit_val m2 \<and> 10 * digit_val m1 + digit_val m2 < 60"
      using tens_digit_val [OF twenties(3)] is_digit_val [of m1] is_digit_val [OF twenties(4)]
      by simp
    ultimately show ?thesis
      by (intro exI [of _ "10 * digit_val (CHR ''2'') + digit_val h2"] exI [of _ "10 * digit_val m1 + digit_val m2"]) simp
  qed
qed




lemma setHours_integer:
  "Date_setHours h (Some d) (Fin (of_int hh)) (Fin (of_int mm))
     = TimeClip (Fin (of_int (UTC h (Day (LocalTime h d) * msPerDay
                                     + hh * msPerHour + mm * msPerMinute))))"
  by (simp add: Date_setHours_def MakeDate_def MakeTime_def algebra_simps)

lemma start_of_local_day:
  "Date_setHours h (Some now) (Fin 0) (Fin 0)
     = TimeClip (Fin (of_int (UTC h (Day (LocalTime h now) * msPerDay))))"
  using setHours_integer [of h now 0 0] by simp

section \<open>The status of an event\<close>


lemma getDateTime_valid:
  assumes "getp e ''time'' = JStr t" and "time_format t"
  shows "\<exists>hh mm. 0 \<le> hh \<and> hh < 24 \<and> 0 \<le> mm \<and> mm < 60
           \<and> map Number_str (splitOn (CHR '':'') t) = [Fin (of_int hh), Fin (of_int mm)]
           \<and> getDateTime h e
               = Inr (Date_setHours h (new_Date h (getp e ''date''))
                        (Fin (of_int hh)) (Fin (of_int mm)))"
proof -
  from time_format_parts [OF assms(2)] obtain hh mm
    where p: "map Number_str (splitOn (CHR '':'') t) = [Fin (of_int hh), Fin (of_int mm)]"
      and b: "0 \<le> hh" "hh < 24" "0 \<le> mm" "mm < 60"
    by auto
  have "getDateTime h e
          = Inr (Date_setHours h (new_Date h (getp e ''date''))
                   (Fin (of_int hh)) (Fin (of_int mm)))"
    using assms(1) p by (simp add: getDateTime_def Let_def)
  with p b show ?thesis by auto
qed






lemmas date_defs = getDateTime_def Date_setHours_def Date_setMinutes_def Date_getMinutes_def
  MakeDate_def MakeTime_def LocalTime_def UTC_def Day_def HourFromTime_def MinFromTime_def
  SecFromTime_def msFromTime_def msPerDay_def msPerHour_def msPerMinute_def msPerSecond_def
  new_Date_def TimeClip_int TimeClip_numeral TimeClip_time_num plus_number_def

lemmas obj_defs = Event_new_def Event_update_def Object_keys_def Event_allowedUpdates_def
  getp_def setp_def dflt_def

lemmas validate_defs = Event_validate_def date_errors_def Let_def getp_def
  is_string_def is_number_def time_format_def is_digit_def num_le_def







text \<open>White space before the hour is skipped by \<open>Number\<close>.\<close>

lemma getDateTime_blank_before_hour:
  "getDateTime ex_host (setp ''time'' (JStr '' 14:00'') ex_full_event)
     = Inr (Some 1893502800000)"
  by (simp add: ex_full_event_eq obj_defs date_defs Number_str_examples Number_str_ex
        ex_host_def)




section \<open>The date rule of \<open>Event.validate\<close>\<close>






text \<open>
  A date that is falsy, such as \<open>null\<close> or the number 0, is reported as missing,
  although \<open>new Date\<close> makes the epoch of either.
\<close>

lemma date_rule_requires_date:
  "\<not> truthy v \<Longrightarrow> date_errors h now v = [''Date is required'']"
  "new_Date h JNull = Some 0"
  "new_Date h (JNum (Fin 0)) = Some 0"
  by (simp_all add: date_errors_def new_Date_def TimeClip_numeral)

text \<open>A number beyond the range of \<open>Date\<close> is not a valid date; the bounds themselves are.\<close>

lemma validate_date_out_of_range:
  "date_errors h now (JNum (Fin (- 8640000000000001))) = [''Date must be a valid date'']"
  "date_errors h now (JNum (Fin 8640000000000001)) = [''Date must be a valid date'']"
  "new_Date h (JNum (Fin 8640000000000000)) = Some 8640000000000000"
  "new_Date h (JNum (Fin (- 8640000000000000))) = Some (- 8640000000000000)"
  by (simp_all add: date_errors_def new_Date_def TimeClip_numeral)




text \<open>
  On a host whose offset from UTC never changes, and for a time of the form \<open>HH:MM\<close>,
  the date lies before the start of the current local day exactly when the date and time
  combined do: \<open>setHours\<close> stays within the local calendar day of the date.
\<close>

lemma same_local_day:
  fixes d B c hh mm :: int
  assumes "0 \<le> hh" "hh < 24" "0 \<le> mm" "mm < 60"
  shows "((d + c) div 86400000) * 86400000 + hh * 3600000 + mm * 60000 - c
            < B * 86400000 - c
         \<longleftrightarrow> d < B * 86400000 - c"
proof -
  define A where "A = (d + c) div 86400000"
  define r where "r = (d + c) mod 86400000"
  have 1: "d + c = 86400000 * A + r"
    unfolding A_def r_def by (rule mult_div_mod_eq [symmetric])
  have 2: "0 \<le> r" "r < 86400000"
    unfolding r_def by simp_all
  have "A * 86400000 + hh * 3600000 + mm * 60000 - c < B * 86400000 - c \<longleftrightarrow> A < B"
    using assms by linarith
  moreover have "d < B * 86400000 - c \<longleftrightarrow> A < B"
    using 1 2 by linarith
  ultimately show ?thesis
    unfolding A_def by simp
qed

lemma combined_past_iff_fixed_offset:
  assumes off: "\<And>x u. localTZA h x u = c"
    and tm: "getp eventData ''time'' = JStr t" "time_format t"
    and d: "new_Date h (getp eventData ''date'') = Some d"
    and s: "Date_setHours h (Some now) (Fin 0) (Fin 0) = Some s"
    and st: "getDateTime h (Event_new h uuid created eventData) = Inr (Some start)"
  shows "start < s \<longleftrightarrow> d < s"
proof -
  have t': "getp (Event_new h uuid created eventData) ''time'' = JStr t"
    using tm(1) by (simp add: Event_new_def getp_def)
  have d': "new_Date h (getp (Event_new h uuid created eventData) ''date'') = Some d"
    using d by (simp add: Event_new_def getp_def new_Date_def)
  from getDateTime_valid [OF t' tm(2), of h] obtain hh mm
    where b: "0 \<le> hh" "hh < 24" "0 \<le> mm" "mm < 60"
      and g: "getDateTime h (Event_new h uuid created eventData)
               = Inr (Date_setHours h (Some d) (Fin (of_int hh)) (Fin (of_int mm)))"
    unfolding d' by auto
  have "start = UTC h (Day (LocalTime h d) * msPerDay + hh * msPerHour + mm * msPerMinute)"
    using g st unfolding setHours_integer TimeClip_int by (simp split: if_splits)
  then have 1: "start = ((d + c) div 86400000) * 86400000 + hh * 3600000 + mm * 60000 - c"
    by (simp add: UTC_def LocalTime_def Day_def off msPerDay_def msPerHour_def
          msPerMinute_def)
  have "s = UTC h (Day (LocalTime h now) * msPerDay)"
    using s unfolding start_of_local_day TimeClip_int by (simp split: if_splits)
  then have 2: "s = ((now + c) div 86400000) * 86400000 - c"
    by (simp add: UTC_def LocalTime_def Day_def off msPerDay_def)
  show ?thesis
    unfolding 1 2 by (rule same_local_day [OF b])
qed

text \<open>
  The date compared is the instant the parser gives. On \<^const>\<open>ex_host_west\<close>, at
  10:00 local time on 2030-01-01 (1893510000000), the date \<open>2030-01-01\<close> is midnight UTC,
  which is 19:00 local time on the day before: the input is rejected as being in the
  past, and the event constructed from it would start at 23:00 local time on
  2029-12-31.
\<close>

lemma validate_rejects_current_local_day:
  "parseDate ex_host_west ''2030-01-01'' = Some 1893456000000
   \<and> Day (LocalTime ex_host_west 1893510000000) = Day 1893456000000
   \<and> Date_setHours ex_host_west (Some 1893510000000) (Fin 0) (Fin 0) = Some 1893474000000
   \<and> Event_validate ex_host_west 1893510000000 ex_today_event_data
       = (False, [''Event date cannot be in the past''])
   \<and> getDateTime ex_host_west (Event_new ex_host_west ''e9'' 1893510000000 ex_today_event_data)
       = Inr (Some 1893470400000)"
proof -
  have n: "Number_str ''23'' = Fin 23"
    using Number_str_digits [of "''23''"]
    by (simp add: digits_val_def digit_val_def is_digit_def)
  have 1: "parseDate ex_host_west ''2030-01-01'' = Some 1893456000000"
    "Day (LocalTime ex_host_west 1893510000000) = Day 1893456000000"
    "Date_setHours ex_host_west (Some 1893510000000) (Fin 0) (Fin 0) = Some 1893474000000"
    by (simp_all add: ex_host_west_def date_defs)
  have 2: "Event_validate ex_host_west 1893510000000 ex_today_event_data
             = (False, [''Event date cannot be in the past''])"
    by (simp add: ex_today_event_data_def validate_defs date_defs ex_host_west_def)
  have 3: "getDateTime ex_host_west
             (Event_new ex_host_west ''e9'' 1893510000000 ex_today_event_data)
             = Inr (Some 1893470400000)"
    by (simp add: ex_today_event_data_def obj_defs date_defs Number_str_ex n ex_host_west_def)
  show ?thesis
    using 1 2 3 by simp
qed

end
